theory Spec2Isabelle
  imports Complex_Main
begin

section \<open>Python values used by the notebook\<close>

text \<open>
  The notebook \<^verbatim>\<open>docs/examples/language_model/language_model.ipynb\<close> is glue code around
  a deep-learning framework. The embedding keeps the notebook's own control flow and
  arithmetic and takes every framework primitive (the model's forward pass, the loss, the
  tensor method \<^verbatim>\<open>detach\<close>, ...) as a parameter of the function that calls it.

  Exceptions that the notebook's own operators can raise are values of \<open>error\<close>. The
  lines that the notebook prints and the clock that it reads are not modelled, and
  \<^verbatim>\<open>math.exp\<close> inside a printed line is taken to return.
\<close>

datatype error = ZeroDivisionError | ValueError | AttributeError | IndexError

text \<open>
  Floating-point numbers are idealised: a finite float is a real number (rounding and
  overflow of finite arithmetic are outside the model), and the three special values that
  the notebook can produce or compare against (\<^verbatim>\<open>float("Inf")\<close>, and the results of a
  NumPy division by zero) are kept apart.
\<close>

datatype fl = Num real | PosInf | NegInf | NaN

fun fl_add :: "fl \<Rightarrow> fl \<Rightarrow> fl" where
  "fl_add NaN _ = NaN"
| "fl_add _ NaN = NaN"
| "fl_add PosInf NegInf = NaN"
| "fl_add NegInf PosInf = NaN"
| "fl_add PosInf _ = PosInf"
| "fl_add _ PosInf = PosInf"
| "fl_add NegInf _ = NegInf"
| "fl_add _ NegInf = NegInf"
| "fl_add (Num a) (Num b) = Num (a + b)"

text \<open>IEEE division of a float by a non-negative integer; no exception is raised.\<close>

fun fl_div :: "fl \<Rightarrow> nat \<Rightarrow> fl" where
  "fl_div NaN n = NaN"
| "fl_div PosInf n = PosInf"
| "fl_div NegInf n = NegInf"
| "fl_div (Num a) n =
     (if n = 0 then (if a = 0 then NaN else if 0 < a then PosInf else NegInf)
      else Num (a / real n))"

text \<open>The comparison \<^verbatim>\<open><\<close> on floats: every comparison with NaN is false.\<close>

fun fl_less :: "fl \<Rightarrow> fl \<Rightarrow> bool" where
  "fl_less NaN _ = False"
| "fl_less _ NaN = False"
| "fl_less _ NegInf = False"
| "fl_less PosInf _ = False"
| "fl_less NegInf _ = True"
| "fl_less _ PosInf = True"
| "fl_less (Num a) (Num b) = (a < b)"

text \<open>
  A Python number carries its run-time type, because \<^verbatim>\<open>/\<close> depends on it: dividing a
  Python \<^verbatim>\<open>int\<close> or \<^verbatim>\<open>float\<close> by zero raises \<^verbatim>\<open>ZeroDivisionError\<close>, dividing a NumPy
  scalar (what \<^verbatim>\<open>NDArray.asscalar()\<close> returns) by zero gives \<^verbatim>\<open>inf\<close> or \<^verbatim>\<open>nan\<close>.
\<close>

datatype pynum = PyInt int | PyFloat fl | NpFloat fl

fun fl_of :: "pynum \<Rightarrow> fl" where
  "fl_of (PyInt k) = Num (real_of_int k)"
| "fl_of (PyFloat x) = x"
| "fl_of (NpFloat x) = x"

fun is_np :: "pynum \<Rightarrow> bool" where
  "is_np (NpFloat _) = True"
| "is_np _ = False"

text \<open>\<^verbatim>\<open>a + b\<close>: a NumPy operand makes the result a NumPy scalar; two ints stay an int.\<close>

fun py_add :: "pynum \<Rightarrow> pynum \<Rightarrow> pynum" where
  "py_add (PyInt a) (PyInt b) = PyInt (a + b)"
| "py_add a b =
     (if is_np a \<or> is_np b then NpFloat (fl_add (fl_of a) (fl_of b))
      else PyFloat (fl_add (fl_of a) (fl_of b)))"

text \<open>\<^verbatim>\<open>a / n\<close> for a non-negative Python int \<open>n\<close> (a length, a size or a loop index).\<close>

fun truediv :: "pynum \<Rightarrow> nat \<Rightarrow> error + pynum" where
  "truediv (NpFloat x) n = Inr (NpFloat (fl_div x n))"
| "truediv a n = (if n = 0 then Inl ZeroDivisionError else Inr (PyFloat (fl_div (fl_of a) n)))"

text \<open>
  \<^verbatim>\<open>xs[start:stop]\<close> on a sequence, as CPython adjusts the indices: a negative index counts
  from the end, and both are clipped to \<open>0..len\<close>.
\<close>

definition adjust_index :: "nat \<Rightarrow> int \<Rightarrow> nat" where
  "adjust_index n k =
     (if k < 0 then (if k + int n < 0 then 0 else nat (k + int n))
      else if int n \<le> k then n else nat k)"

definition py_slice :: "'a list \<Rightarrow> int \<Rightarrow> int \<Rightarrow> 'a list" where
  "py_slice xs start stop =
     (let s = adjust_index (length xs) start; e = adjust_index (length xs) stop
      in if s < e then take (e - s) (drop s xs) else [])"

text \<open>
  \<^verbatim>\<open>range(start, stop, step)\<close>: a zero step raises \<^verbatim>\<open>ValueError\<close>; otherwise the length is
  computed as CPython does and the elements are \<open>start + k * step\<close>.
\<close>

definition range_length :: "int \<Rightarrow> int \<Rightarrow> int \<Rightarrow> nat" where
  "range_length lo hi step = (if lo < hi then nat ((hi - lo - 1) div step + 1) else 0)"

definition py_range :: "int \<Rightarrow> int \<Rightarrow> int \<Rightarrow> error + int list" where
  "py_range start stop step =
     (if step = 0 then Inl ValueError
      else let n = (if 0 < step then range_length start stop step
                    else range_length stop start (- step))
           in Inr (map (\<lambda>k. start + int k * step) [0..<n]))"

section \<open>Nested hidden states and \<open>detach\<close>\<close>

text \<open>
  A hidden state is a tensor, or a tuple or list of hidden states. The tensor method
  \<^verbatim>\<open>.detach()\<close> belongs to the framework and is the parameter \<open>dt\<close>.

  \<^verbatim>\<open>
  def detach(hidden):
      if isinstance(hidden, (tuple, list)):
          hidden = [detach(i) for i in hidden]
      else:
          hidden = hidden.detach()
      return hidden
  \<close>
\<close>

datatype 'a hidden = Tensor 'a | PyTuple "'a hidden list" | PyList "'a hidden list"

fun detach :: "('a \<Rightarrow> 'a) \<Rightarrow> 'a hidden \<Rightarrow> 'a hidden" where
  "detach dt (PyTuple hs) = PyList (map (detach dt) hs)"
| "detach dt (PyList hs) = PyList (map (detach dt) hs)"
| "detach dt (Tensor t) = Tensor (dt t)"

text \<open>The leaves of a hidden state from left to right.\<close>

fun leaves :: "'a hidden \<Rightarrow> 'a list" where
  "leaves (Tensor t) = [t]"
| "leaves (PyTuple hs) = concat (map leaves hs)"
| "leaves (PyList hs) = concat (map leaves hs)"

text \<open>The nesting shape: what is left when tensors and the tuple/list distinction are erased.\<close>

datatype shape = Leaf | Node "shape list"

fun shape_of :: "'a hidden \<Rightarrow> shape" where
  "shape_of (Tensor t) = Leaf"
| "shape_of (PyTuple hs) = Node (map shape_of hs)"
| "shape_of (PyList hs) = Node (map shape_of hs)"

text \<open>No tuple occurs anywhere in the structure.\<close>

fun only_lists :: "'a hidden \<Rightarrow> bool" where
  "only_lists (Tensor t) = True"
| "only_lists (PyTuple hs) = False"
| "only_lists (PyList hs) = list_all only_lists hs"

section \<open>\<open>get_batch\<close>\<close>

text \<open>
  \<^verbatim>\<open>
  def get_batch(data_source, i, seq_len=None):
      seq_len = min(seq_len if seq_len else bptt, len(data_source) - 1 - i)
      data = data_source[i:i+seq_len]
      target = data_source[i+1:i+1+seq_len]
      return data, target
  \<close>
  The function reads the global \<^verbatim>\<open>bptt\<close>, which is its first argument here. The data
  source is a sequence sliced along its first axis.
\<close>

definition get_batch :: "int \<Rightarrow> 'a list \<Rightarrow> int \<Rightarrow> int option \<Rightarrow> 'a list \<times> 'a list" where
  "get_batch bptt data_source i seq_len =
     (let seq_len' = min (case seq_len of None \<Rightarrow> bptt
                          | Some s \<Rightarrow> if s \<noteq> 0 then s else bptt)
                         (int (length data_source) - 1 - i);
          data = py_slice data_source i (i + seq_len');
          target = py_slice data_source (i + 1) (i + 1 + seq_len')
      in (data, target))"

section \<open>\<open>evaluate\<close>\<close>

text \<open>
  \<^verbatim>\<open>
  def evaluate(model, data_source, batch_size, ctx):
      total_L = 0.0
      ntotal = 0
      hidden = model.begin_state(batch_size=batch_size, func=mx.nd.zeros, ctx=ctx)
      for i, (data, target) in enumerate(data_source):
          data = data.as_in_context(ctx)
          target = target.as_in_context(ctx)
          output, hidden = model(data, hidden)
          hidden = detach(hidden)
          L = loss(output.reshape(-3, -1),
                   target.reshape(-1))
          total_L += mx.nd.sum(L).asscalar()
          ntotal += L.size
      return total_L / ntotal
  \<close>
  Framework primitives, taken as parameters:
  \<^item> \<open>begin_state batch_size ctx\<close> is \<^verbatim>\<open>model.begin_state(batch_size=.., func=mx.nd.zeros, ctx=..)\<close>,
    the all-zero initial state;
  \<^item> \<open>forward data hidden\<close> is the call \<^verbatim>\<open>model(data, hidden)\<close>;
  \<^item> \<open>loss output target\<close> is the array \<^verbatim>\<open>L\<close> of per-token losses, as the list of its
    entries (the reshapes only flatten the arguments): \<^verbatim>\<open>L.size\<close> is its length and
    \<^verbatim>\<open>mx.nd.sum(L).asscalar()\<close> the NumPy scalar holding the sum of its entries;
  \<^item> \<open>dt\<close> is the tensor method \<^verbatim>\<open>.detach()\<close>.

  \<^verbatim>\<open>as_in_context\<close> moves an array to a device and leaves its value alone. The field
  \<open>ev_calls\<close> is a ghost log: for each call of the model, the hidden state it was given and
  the hidden state it returned.
\<close>

definition fl_sum :: "fl list \<Rightarrow> fl" where
  "fl_sum xs = foldl fl_add (Num 0) xs"

record 'a eval_state =
  ev_total_L :: pynum
  ev_ntotal :: nat
  ev_hidden :: "'a hidden"
  ev_calls :: "('a hidden \<times> 'a hidden) list"

fun evaluate_loop ::
  "('x \<Rightarrow> 'a hidden \<Rightarrow> 'o \<times> 'a hidden) \<Rightarrow> ('o \<Rightarrow> 'y \<Rightarrow> fl list) \<Rightarrow> ('a \<Rightarrow> 'a) \<Rightarrow>
   ('x \<times> 'y) list \<Rightarrow> 'a eval_state \<Rightarrow> 'a eval_state" where
  "evaluate_loop forward loss dt [] st = st"
| "evaluate_loop forward loss dt ((data, target) # rest) st =
     (let (output, hidden) = forward data (ev_hidden st);
          L = loss output target
      in evaluate_loop forward loss dt rest
           \<lparr>ev_total_L = py_add (ev_total_L st) (NpFloat (fl_sum L)),
            ev_ntotal = ev_ntotal st + length L,
            ev_hidden = detach dt hidden,
            ev_calls = ev_calls st @ [(ev_hidden st, hidden)]\<rparr>)"

definition evaluate_run ::
  "(nat \<Rightarrow> 'c \<Rightarrow> 'a hidden) \<Rightarrow> ('x \<Rightarrow> 'a hidden \<Rightarrow> 'o \<times> 'a hidden) \<Rightarrow>
   ('o \<Rightarrow> 'y \<Rightarrow> fl list) \<Rightarrow> ('a \<Rightarrow> 'a) \<Rightarrow> ('x \<times> 'y) list \<Rightarrow> nat \<Rightarrow> 'c \<Rightarrow> 'a eval_state" where
  "evaluate_run begin_state forward loss dt data_source batch_size ctx =
     evaluate_loop forward loss dt data_source
       \<lparr>ev_total_L = PyFloat (Num 0), ev_ntotal = 0,
        ev_hidden = begin_state batch_size ctx, ev_calls = []\<rparr>"

definition evaluate ::
  "(nat \<Rightarrow> 'c \<Rightarrow> 'a hidden) \<Rightarrow> ('x \<Rightarrow> 'a hidden \<Rightarrow> 'o \<times> 'a hidden) \<Rightarrow>
   ('o \<Rightarrow> 'y \<Rightarrow> fl list) \<Rightarrow> ('a \<Rightarrow> 'a) \<Rightarrow> ('x \<times> 'y) list \<Rightarrow> nat \<Rightarrow> 'c \<Rightarrow> error + pynum" where
  "evaluate begin_state forward loss dt data_source batch_size ctx =
     (let st = evaluate_run begin_state forward loss dt data_source batch_size ctx
      in truediv (ev_total_L st) (ev_ntotal st))"

section \<open>\<open>evaluate_cache\<close>\<close>

text \<open>
  \<^verbatim>\<open>
  def evaluate_cache(model, data_source, batch_size, ctx):
      total_L = 0.0
      hidden = model.begin_state(batch_size=batch_size, func=mx.nd.zeros, ctx=ctx)
      next_word_history = None
      cache_history = None
      for i in range(0, len(data_source) - 1, bptt):
          if i > 0:
              print('Batch %d, ppl %f'%
                    (i, math.exp(total_L/i)))
          if i == bptt:
              return total_L/i
          data, target = get_batch(data_source, i)
          data = data.as_in_context(ctx)
          target = target.as_in_context(ctx)
          L = 0
          outs, next_word_history, cache_history, hidden = model(data, target,
                                                                 next_word_history,
                                                                 cache_history,
                                                                 hidden)
          for out in outs:
              L += (-mx.nd.log(out)).asscalar()
          total_L += L / data.shape[1]
          hidden = detach(hidden)
      return total_L / len(data_source)
  \<close>
  Framework primitives, taken as parameters:
  \<^item> \<open>cache_model data target next_word_history cache_history hidden\<close> is the call of the
    cache cell;
  \<^item> \<open>nll out\<close> is the value of \<^verbatim>\<open>(-mx.nd.log(out)).asscalar()\<close>, a NumPy scalar;
  \<^item> \<open>shape1\<close> is \<^verbatim>\<open>data.shape[1]\<close>, the width of the data source, which slicing along
    the first axis keeps.

  The global \<^verbatim>\<open>bptt\<close> is the parameter \<open>bptt\<close>. What \<^verbatim>\<open>print\<close> writes is not part of the
  model. The loop returns the value of an early \<^verbatim>\<open>return\<close> or of a raised exception, if
  there is one, together with the state it reached.
\<close>

record ('a, 'n, 'k) cache_state =
  ec_total_L :: pynum
  ec_hidden :: "'a hidden"
  ec_next_word_history :: "'n option"
  ec_cache_history :: "'k option"
  ec_calls :: "('a hidden \<times> 'a hidden) list"

type_synonym ('t, 'a, 'n, 'k, 'p) cache_model =
  "'t list \<Rightarrow> 't list \<Rightarrow> 'n option \<Rightarrow> 'k option \<Rightarrow> 'a hidden \<Rightarrow> 'p list \<times> 'n \<times> 'k \<times> 'a hidden"

fun evaluate_cache_loop ::
  "('t, 'a, 'n, 'k, 'p) cache_model \<Rightarrow> ('p \<Rightarrow> fl) \<Rightarrow> ('a \<Rightarrow> 'a) \<Rightarrow> int \<Rightarrow> nat \<Rightarrow> 't list \<Rightarrow>
   int list \<Rightarrow> ('a, 'n, 'k) cache_state \<Rightarrow> (error + pynum) option \<times> ('a, 'n, 'k) cache_state" where
  "evaluate_cache_loop cache_model nll dt bptt shape1 data_source [] st = (None, st)"
| "evaluate_cache_loop cache_model nll dt bptt shape1 data_source (i # rest) st =
     (if i = bptt then (Some (truediv (ec_total_L st) (nat i)), st)
      else
        let (data, target) = get_batch bptt data_source i None;
            (outs, next_word_history, cache_history, hidden) =
               cache_model data target (ec_next_word_history st) (ec_cache_history st)
                 (ec_hidden st);
            L = foldl py_add (PyInt 0) (map (\<lambda>out. NpFloat (nll out)) outs);
            st' = st\<lparr>ec_hidden := hidden,
                     ec_next_word_history := Some next_word_history,
                     ec_cache_history := Some cache_history,
                     ec_calls := ec_calls st @ [(ec_hidden st, hidden)]\<rparr>
        in case truediv L shape1 of
             Inl e \<Rightarrow> (Some (Inl e), st')
           | Inr q \<Rightarrow>
               evaluate_cache_loop cache_model nll dt bptt shape1 data_source rest
                 (st'\<lparr>ec_total_L := py_add (ec_total_L st) q, ec_hidden := detach dt hidden\<rparr>))"

definition evaluate_cache_run ::
  "(nat \<Rightarrow> 'c \<Rightarrow> 'a hidden) \<Rightarrow> ('t, 'a, 'n, 'k, 'p) cache_model \<Rightarrow> ('p \<Rightarrow> fl) \<Rightarrow> ('a \<Rightarrow> 'a) \<Rightarrow>
   int \<Rightarrow> nat \<Rightarrow> 't list \<Rightarrow> nat \<Rightarrow> 'c \<Rightarrow> error + (error + pynum) option \<times> ('a, 'n, 'k) cache_state" where
  "evaluate_cache_run begin_state cache_model nll dt bptt shape1 data_source batch_size ctx =
     (case py_range 0 (int (length data_source) - 1) bptt of
        Inl e \<Rightarrow> Inl e
      | Inr indices \<Rightarrow>
          Inr (evaluate_cache_loop cache_model nll dt bptt shape1 data_source indices
                 \<lparr>ec_total_L = PyFloat (Num 0), ec_hidden = begin_state batch_size ctx,
                  ec_next_word_history = None, ec_cache_history = None, ec_calls = []\<rparr>))"

definition evaluate_cache ::
  "(nat \<Rightarrow> 'c \<Rightarrow> 'a hidden) \<Rightarrow> ('t, 'a, 'n, 'k, 'p) cache_model \<Rightarrow> ('p \<Rightarrow> fl) \<Rightarrow> ('a \<Rightarrow> 'a) \<Rightarrow>
   int \<Rightarrow> nat \<Rightarrow> 't list \<Rightarrow> nat \<Rightarrow> 'c \<Rightarrow> error + pynum" where
  "evaluate_cache begin_state cache_model nll dt bptt shape1 data_source batch_size ctx =
     (case evaluate_cache_run begin_state cache_model nll dt bptt shape1 data_source
             batch_size ctx of
        Inl e \<Rightarrow> Inl e
      | Inr (Some r, st) \<Rightarrow> r
      | Inr (None, st) \<Rightarrow> truediv (ec_total_L st) (length data_source))"

section \<open>\<open>train\<close>\<close>

text \<open>
  The training loop calls the framework for its effects: recording a computation,
  back-propagating, clipping gradients, updating parameters, saving them. The model keeps
  the order of these calls as a list of events. What the framework answers may depend on
  everything that has happened before (the parameters after a step depend on every batch
  seen so far), so the forward pass takes the events so far as an argument.
\<close>

datatype dataset = Val | Test

datatype ('nd, 'a) event =
    BeginState "'a hidden list"
  | Detach
  | RecordEnter
  | Forward nat 'nd "'a hidden" "'a hidden"
  | Loss nat 'nd
  | RecordExit
  | Backward
  | ClipGlobalNorm real
  | TrainerStep nat
  | Report pynum
  | WaitAll
  | Evaluate dataset pynum
  | SaveParams nat
  | SetLearningRate real

text \<open>
  The events stand for these statements of \<^verbatim>\<open>train\<close>:
  \<^item> \<open>BeginState hiddens\<close>: \<^verbatim>\<open>hiddens = [model.begin_state(...) for ctx in context]\<close>;
  \<^item> \<open>Detach\<close>: \<^verbatim>\<open>hiddens = detach(hiddens)\<close>;
  \<^item> \<open>RecordEnter\<close>, \<open>RecordExit\<close>: entering and leaving \<^verbatim>\<open>with autograd.record():\<close>;
  \<^item> \<open>Forward j X h h'\<close>: \<^verbatim>\<open>output, h = model(X, h)\<close> for the \<open>j\<close>-th device, with the
    hidden state passed and the one returned;
  \<^item> \<open>Loss j y\<close>: \<^verbatim>\<open>batch_L = loss(...)\<close> and the two statements that add it to \<^verbatim>\<open>L\<close> and
    to \<^verbatim>\<open>Ls\<close>;
  \<^item> \<open>Backward\<close>: \<^verbatim>\<open>L.backward()\<close>;
  \<^item> \<open>ClipGlobalNorm c\<close>: \<^verbatim>\<open>gluon.utils.clip_global_norm(grads, c)\<close> on the gradients of
    all parameters;
  \<^item> \<open>TrainerStep n\<close>: \<^verbatim>\<open>trainer.step(n)\<close>;
  \<^item> \<open>Report cur_L\<close>: the progress line printed every \<^verbatim>\<open>log_interval\<close> batches;
  \<^item> \<open>WaitAll\<close>: \<^verbatim>\<open>mx.nd.waitall()\<close>;
  \<^item> \<open>Evaluate d v\<close>: a call of \<^verbatim>\<open>evaluate\<close> on the validation or test data that
    returned \<open>v\<close>;
  \<^item> \<open>SaveParams epoch\<close>: \<^verbatim>\<open>model.save_params(...)\<close>;
  \<^item> \<open>SetLearningRate lr\<close>: \<^verbatim>\<open>trainer.set_learning_rate(lr)\<close>.
\<close>

record ('c, 'nd, 'o, 'a) framework =
  fw_begin_state :: "nat \<Rightarrow> 'c \<Rightarrow> 'a hidden"
  fw_forward :: "('nd, 'a) event list \<Rightarrow> 'nd \<Rightarrow> 'a hidden \<Rightarrow> 'o \<times> 'a hidden"
  fw_loss :: "'o \<Rightarrow> 'nd \<Rightarrow> fl list"
  fw_split_and_load :: "'nd \<Rightarrow> 'c list \<Rightarrow> 'nd list"
  fw_size :: "'nd \<Rightarrow> nat"
  fw_detach :: "'a \<Rightarrow> 'a"

text \<open>The constant of the environment cell: \<^verbatim>\<open>log_interval = 200\<close>.\<close>

definition log_interval :: nat where
  "log_interval = 200"

text \<open>
  The body of \<^verbatim>\<open>with autograd.record():\<close>
  \<^verbatim>\<open>
  for j, (X, y, h) in enumerate(zip(data_list, target_list, hiddens)):
      output, h = model(X, h)
      batch_L = loss(output.reshape(-3, -1), y.reshape(-1,))
      L = L + batch_L.as_in_context(context[0]) / X.size
      Ls.append(batch_L / X.size)
      hiddens[j] = h
  \<close>
  \<open>zip\<close> reads \<^verbatim>\<open>hiddens[j]\<close> before the body stores into that index, so the triples are
  those of the list as it was when the loop started. The function returns the events of
  the loop, the updated \<^verbatim>\<open>hiddens\<close> and \<^verbatim>\<open>Ls\<close>; \<open>tr\<close> holds the events before it.
\<close>

fun train_devices ::
  "('c, 'nd, 'o, 'a) framework \<Rightarrow> ('nd, 'a) event list \<Rightarrow> nat \<Rightarrow> ('nd \<times> 'nd \<times> 'a hidden) list \<Rightarrow>
   'a hidden list \<Rightarrow> fl list list \<Rightarrow> ('nd, 'a) event list \<times> 'a hidden list \<times> fl list list" where
  "train_devices fw tr j [] hiddens Ls = ([], hiddens, Ls)"
| "train_devices fw tr j ((X, y, h) # rest) hiddens Ls =
     (let (output, h') = fw_forward fw tr X h;
          batch_L = fw_loss fw output y;
          evs = [Forward j X h h', Loss j y];
          (evs', hiddens', Ls') =
             train_devices fw (tr @ evs) (Suc j) rest (hiddens[j := h'])
               (Ls @ [map (\<lambda>l. fl_div l (fw_size fw X)) batch_L])
      in (evs @ evs', hiddens', Ls'))"

text \<open>The elements of a Python list.\<close>

fun items :: "'a hidden \<Rightarrow> 'a hidden list" where
  "items (PyList hs) = hs"
| "items (PyTuple hs) = hs"
| "items (Tensor t) = []"

text \<open>
  One iteration of \<^verbatim>\<open>for i, (data, target) in enumerate(train_data)\<close>
  \<^verbatim>\<open>
  data_list = gluon.utils.split_and_load(data, context, batch_axis=1, even_split=True)
  target_list = gluon.utils.split_and_load(target, context, batch_axis=1, even_split=True)
  hiddens = detach(hiddens)
  L = 0
  Ls = []
  with autograd.record():
      ...
  L.backward()
  grads = [p.grad(x.context) for p in parameters for x in data_list]
  gluon.utils.clip_global_norm(grads, grad_clip)

  trainer.step(1)

  total_L += sum([mx.nd.sum(l).asscalar() for l in Ls])

  if i % log_interval == 0 and i > 0:
      cur_L = total_L / log_interval
      print(...)
      total_L = 0.0
      start_log_interval_time = time.time()
  \<close>
  When the loop over the devices has no iteration, \<^verbatim>\<open>L\<close> is still the int \<open>0\<close> and
  \<^verbatim>\<open>L.backward()\<close> raises \<^verbatim>\<open>AttributeError\<close>. The result is the events of the iteration,
  the new \<^verbatim>\<open>hiddens\<close> and \<^verbatim>\<open>total_L\<close>, and the exception raised, if any.
\<close>

definition train_batch ::
  "('c, 'nd, 'o, 'a) framework \<Rightarrow> real \<Rightarrow> 'c list \<Rightarrow> ('nd, 'a) event list \<Rightarrow> nat \<Rightarrow> 'nd \<Rightarrow> 'nd \<Rightarrow>
   'a hidden list \<Rightarrow> pynum \<Rightarrow> ('nd, 'a) event list \<times> 'a hidden list \<times> pynum \<times> error option" where
  "train_batch fw grad_clip ctxs tr i data target hiddens total_L =
     (let data_list = fw_split_and_load fw data ctxs;
          target_list = fw_split_and_load fw target ctxs;
          hiddens1 = items (detach (fw_detach fw) (PyList hiddens));
          triples = zip data_list (zip target_list hiddens1);
          (evs, hiddens2, Ls) =
             train_devices fw (tr @ [Detach, RecordEnter]) 0 triples hiddens1 [];
          evs1 = [Detach, RecordEnter] @ evs @ [RecordExit]
      in if triples = [] then (evs1, hiddens2, total_L, Some AttributeError)
         else
           let evs2 = evs1 @ [Backward, ClipGlobalNorm grad_clip, TrainerStep 1];
               total_L1 = py_add total_L
                  (foldl py_add (PyInt 0) (map (\<lambda>l. NpFloat (fl_sum l)) Ls))
           in if i mod log_interval = 0 \<and> 0 < i then
                (case truediv total_L1 log_interval of
                   Inl e \<Rightarrow> (evs2, hiddens2, total_L1, Some e)
                 | Inr cur_L \<Rightarrow> (evs2 @ [Report cur_L], hiddens2, PyFloat (Num 0), None))
              else (evs2, hiddens2, total_L1, None))"

fun train_batches ::
  "('c, 'nd, 'o, 'a) framework \<Rightarrow> real \<Rightarrow> 'c list \<Rightarrow> ('nd, 'a) event list \<Rightarrow> nat \<Rightarrow>
   ('nd \<times> 'nd) list \<Rightarrow> 'a hidden list \<Rightarrow> pynum \<Rightarrow> ('nd, 'a) event list \<times> error option" where
  "train_batches fw grad_clip ctxs tr i [] hiddens total_L = ([], None)"
| "train_batches fw grad_clip ctxs tr i ((data, target) # rest) hiddens total_L =
     (case train_batch fw grad_clip ctxs tr i data target hiddens total_L of
        (evs, hiddens', total_L', Some e) \<Rightarrow> (evs, Some e)
      | (evs, hiddens', total_L', None) \<Rightarrow>
          (let (evs', err) =
                 train_batches fw grad_clip ctxs (tr @ evs) (Suc i) rest hiddens' total_L'
           in (evs @ evs', err)))"

text \<open>
  One iteration of \<^verbatim>\<open>for epoch in range(epochs)\<close>
  \<^verbatim>\<open>
  total_L = 0.0
  hiddens = [model.begin_state(batch_size//len(context), func=mx.nd.zeros, ctx=ctx)
             for ctx in context]
  for i, (data, target) in enumerate(train_data):
      ...
  mx.nd.waitall()
  val_L = evaluate(model, val_data, batch_size, context[0])
  if val_L < best_val:
      best_val = val_L
      test_L = evaluate(model, test_data, batch_size, context[0])
      model.save_params('{}_{}-{}.params'.format(model_name, dataset_name, epoch))
  else:
      lr = lr*0.25
      trainer.set_learning_rate(lr)
  \<close>
  The clock and the printed lines are left out. The result is the events of the epoch,
  the new \<^verbatim>\<open>best_val\<close> and \<^verbatim>\<open>lr\<close>, and the exception raised, if any.
\<close>

record ('nd, 'a) train_result =
  events :: "('nd, 'a) event list"
  best_val :: pynum
  learning_rate :: real
  raised :: "error option"

definition train_epoch ::
  "('c, 'nd, 'o, 'a) framework \<Rightarrow> real \<Rightarrow> nat \<Rightarrow> 'c list \<Rightarrow> ('nd \<times> 'nd) list \<Rightarrow> ('nd \<times> 'nd) list \<Rightarrow>
   ('nd \<times> 'nd) list \<Rightarrow> ('nd, 'a) event list \<Rightarrow> nat \<Rightarrow> pynum \<Rightarrow> real \<Rightarrow> ('nd, 'a) train_result" where
  "train_epoch fw grad_clip batch_size ctxs train_data val_data test_data tr epoch best lr =
     (let hiddens = map (\<lambda>ctx. fw_begin_state fw (batch_size div length ctxs) ctx) ctxs;
          evs0 = [BeginState hiddens];
          (evs1, err) =
             train_batches fw grad_clip ctxs (tr @ evs0) 0 train_data hiddens (PyFloat (Num 0));
          evs2 = evs0 @ evs1 @ [WaitAll]
      in case err of
           Some e \<Rightarrow> \<lparr>events = evs0 @ evs1, best_val = best, learning_rate = lr, raised = Some e\<rparr>
         | None \<Rightarrow>
            (case ctxs of
               [] \<Rightarrow> \<lparr>events = evs2, best_val = best, learning_rate = lr, raised = Some IndexError\<rparr>
             | ctx0 # _ \<Rightarrow>
                (case evaluate (fw_begin_state fw) (fw_forward fw (tr @ evs2)) (fw_loss fw)
                        (fw_detach fw) val_data batch_size ctx0 of
                   Inl e \<Rightarrow>
                     \<lparr>events = evs2, best_val = best, learning_rate = lr, raised = Some e\<rparr>
                 | Inr val_L \<Rightarrow>
                     let evs3 = evs2 @ [Evaluate Val val_L] in
                     if fl_less (fl_of val_L) (fl_of best) then
                       (case evaluate (fw_begin_state fw) (fw_forward fw (tr @ evs3)) (fw_loss fw)
                               (fw_detach fw) test_data batch_size ctx0 of
                          Inl e \<Rightarrow>
                            \<lparr>events = evs3, best_val = val_L, learning_rate = lr,
                             raised = Some e\<rparr>
                        | Inr test_L \<Rightarrow>
                            \<lparr>events = evs3 @ [Evaluate Test test_L, SaveParams epoch],
                             best_val = val_L, learning_rate = lr, raised = None\<rparr>)
                     else
                       \<lparr>events = evs3 @ [SetLearningRate (lr * 0.25)], best_val = best,
                        learning_rate = lr * 0.25, raised = None\<rparr>)))"

fun train_epochs ::
  "('c, 'nd, 'o, 'a) framework \<Rightarrow> real \<Rightarrow> nat \<Rightarrow> 'c list \<Rightarrow> ('nd \<times> 'nd) list \<Rightarrow> ('nd \<times> 'nd) list \<Rightarrow>
   ('nd \<times> 'nd) list \<Rightarrow> ('nd, 'a) event list \<Rightarrow> nat list \<Rightarrow> pynum \<Rightarrow> real \<Rightarrow> ('nd, 'a) train_result" where
  "train_epochs fw grad_clip batch_size ctxs train_data val_data test_data tr [] best lr =
     \<lparr>events = [], best_val = best, learning_rate = lr, raised = None\<rparr>"
| "train_epochs fw grad_clip batch_size ctxs train_data val_data test_data tr (epoch # rest) best lr =
     (let r = train_epoch fw grad_clip batch_size ctxs train_data val_data test_data tr epoch
                best lr
      in case raised r of
           Some e \<Rightarrow> r
         | None \<Rightarrow>
             (let r' = train_epochs fw grad_clip batch_size ctxs train_data val_data test_data
                         (tr @ events r) rest (best_val r) (learning_rate r)
              in r'\<lparr>events := events r @ events r'\<rparr>))"

text \<open>
  \<^verbatim>\<open>
  def train(model, train_data, val_data, test_data, epochs, lr):
      best_val = float("Inf")
      start_train_time = time.time()
      parameters = model.collect_params().values()
      for epoch in range(epochs):
          ...
  \<close>
  The globals \<^verbatim>\<open>grad_clip\<close>, \<^verbatim>\<open>batch_size\<close> and \<^verbatim>\<open>context\<close> that the function reads are
  arguments, and so are the events \<open>tr\<close> that precede the call.
\<close>

definition train ::
  "('c, 'nd, 'o, 'a) framework \<Rightarrow> real \<Rightarrow> nat \<Rightarrow> 'c list \<Rightarrow> ('nd, 'a) event list \<Rightarrow>
   ('nd \<times> 'nd) list \<Rightarrow> ('nd \<times> 'nd) list \<Rightarrow> ('nd \<times> 'nd) list \<Rightarrow> int \<Rightarrow> real \<Rightarrow> ('nd, 'a) train_result" where
  "train fw grad_clip batch_size ctxs tr train_data val_data test_data epochs lr =
     train_epochs fw grad_clip batch_size ctxs train_data val_data test_data tr
       [0..<nat epochs] (PyFloat PosInf) lr"

subsection \<open>Parts of the training loop\<close>

text \<open>
  Names for parts of \<open>train_batch\<close> and \<open>train_epoch\<close>: the triples that the loop over the
  devices iterates over, that loop as a batch runs it, the initial hidden states of an
  epoch, and the loop over the batches as an epoch runs it.
\<close>

definition batch_triples ::
  "('c, 'nd, 'o, 'a) framework \<Rightarrow> 'c list \<Rightarrow> 'nd \<Rightarrow> 'nd \<Rightarrow> 'a hidden list \<Rightarrow>
   ('nd \<times> 'nd \<times> 'a hidden) list" where
  "batch_triples fw ctxs data target hiddens =
     zip (fw_split_and_load fw data ctxs)
       (zip (fw_split_and_load fw target ctxs) (map (detach (fw_detach fw)) hiddens))"

definition batch_devices ::
  "('c, 'nd, 'o, 'a) framework \<Rightarrow> 'c list \<Rightarrow> ('nd, 'a) event list \<Rightarrow> 'nd \<Rightarrow> 'nd \<Rightarrow> 'a hidden list \<Rightarrow>
   ('nd, 'a) event list \<times> 'a hidden list \<times> fl list list" where
  "batch_devices fw ctxs tr data target hiddens =
     train_devices fw (tr @ [Detach, RecordEnter]) 0 (batch_triples fw ctxs data target hiddens)
       (map (detach (fw_detach fw)) hiddens) []"

definition epoch_hiddens :: "('c, 'nd, 'o, 'a) framework \<Rightarrow> nat \<Rightarrow> 'c list \<Rightarrow> 'a hidden list" where
  "epoch_hiddens fw batch_size ctxs =
     map (\<lambda>ctx. fw_begin_state fw (batch_size div length ctxs) ctx) ctxs"

definition epoch_batches ::
  "('c, 'nd, 'o, 'a) framework \<Rightarrow> real \<Rightarrow> nat \<Rightarrow> 'c list \<Rightarrow> ('nd \<times> 'nd) list \<Rightarrow> ('nd, 'a) event list \<Rightarrow>
   ('nd, 'a) event list \<times> error option" where
  "epoch_batches fw c batch_size ctxs train_data tr =
     train_batches fw c ctxs (tr @ [BeginState (epoch_hiddens fw batch_size ctxs)]) 0 train_data
       (epoch_hiddens fw batch_size ctxs) (PyFloat (Num 0))"

section \<open>The notebook's top-level bindings\<close>

text \<open>
  The code cells of the notebook run in order, each in the global namespace. For every
  code cell the model lists the names that the cell binds at top level (by an assignment,
  an \<^verbatim>\<open>import\<close> or a \<^verbatim>\<open>def\<close>), in the order of the bindings, each with the value it is
  given; values that no claim looks at are opaque objects. No function of the notebook
  has a \<^verbatim>\<open>global\<close> statement, so calling one binds no global name: the assignment
  \<^verbatim>\<open>lr = lr*0.25\<close> inside \<^verbatim>\<open>train\<close> changes the parameter \<^verbatim>\<open>lr\<close> of that call only.
\<close>

datatype pyval = IntV int | FloatV real | StrV string | ListV "pyval list" | Object string

type_synonym env = "string \<Rightarrow> pyval option"

type_synonym cell = "(string \<times> (env \<Rightarrow> pyval)) list"

definition assign :: "env \<Rightarrow> string \<times> (env \<Rightarrow> pyval) \<Rightarrow> env" where
  "assign e b = e(fst b \<mapsto> snd b e)"

definition exec_cell :: "env \<Rightarrow> cell \<Rightarrow> env" where
  "exec_cell e c = foldl assign e c"

fun py_len :: "pyval option \<Rightarrow> int" where
  "py_len (Some (ListV xs)) = int (length xs)"
| "py_len _ = 0"

text \<open>
  \<^verbatim>\<open>
  num_gpus = 1
  context = [mx.gpu(i) for i in range(num_gpus)] if num_gpus else [mx.cpu()]
  log_interval = 200
  \<close>
\<close>

fun context_of :: "pyval option \<Rightarrow> pyval" where
  "context_of (Some (IntV n)) =
     (if n \<noteq> 0 then ListV (map (\<lambda>i. Object ''mx.gpu'') [0..<nat n])
      else ListV [Object ''mx.cpu''])"
| "context_of _ = ListV []"

definition cell_imports :: cell where
  "cell_imports =
     [(''warnings'', \<lambda>e. Object ''module''), (''time'', \<lambda>e. Object ''module''),
      (''math'', \<lambda>e. Object ''module''), (''mx'', \<lambda>e. Object ''module''),
      (''gluon'', \<lambda>e. Object ''module''), (''autograd'', \<lambda>e. Object ''module''),
      (''download'', \<lambda>e. Object ''function''), (''nlp'', \<lambda>e. Object ''module'')]"

definition cell_environment :: cell where
  "cell_environment =
     [(''num_gpus'', \<lambda>e. IntV 1), (''context'', \<lambda>e. context_of (e ''num_gpus'')),
      (''log_interval'', \<lambda>e. IntV 200)]"

text \<open>
  \<^verbatim>\<open>
  batch_size = 20 * len(context)
  lr = 20
  epochs = 3
  bptt = 35
  grad_clip = 0.25
  \<close>
\<close>

definition cell_hyperparameters :: cell where
  "cell_hyperparameters =
     [(''batch_size'', \<lambda>e. IntV (20 * py_len (e ''context''))), (''lr'', \<lambda>e. IntV 20),
      (''epochs'', \<lambda>e. IntV 3), (''bptt'', \<lambda>e. IntV 35), (''grad_clip'', \<lambda>e. FloatV 0.25)]"

definition cell_dataset :: cell where
  "cell_dataset =
     [(''dataset_name'', \<lambda>e. StrV ''wikitext-2''),
      (''train_dataset'', \<lambda>e. Object ''WikiText2''), (''val_dataset'', \<lambda>e. Object ''WikiText2''),
      (''test_dataset'', \<lambda>e. Object ''WikiText2''), (''vocab'', \<lambda>e. Object ''Vocab''),
      (''train_data'', \<lambda>e. Object ''batches''), (''val_data'', \<lambda>e. Object ''batches''),
      (''test_data'', \<lambda>e. Object ''batches'')]"

definition cell_model :: cell where
  "cell_model =
     [(''model_name'', \<lambda>e. StrV ''standard_lstm_lm_200''), (''model'', \<lambda>e. Object ''StandardRNN''),
      (''vocab'', \<lambda>e. Object ''Vocab'')]"

definition cell_trainer :: cell where
  "cell_trainer = [(''trainer'', \<lambda>e. Object ''Trainer''), (''loss'', \<lambda>e. Object ''Loss'')]"

definition cell_def_detach :: cell where
  "cell_def_detach = [(''detach'', \<lambda>e. Object ''function'')]"

definition cell_def_evaluate :: cell where
  "cell_def_evaluate = [(''evaluate'', \<lambda>e. Object ''function'')]"

definition cell_def_train :: cell where
  "cell_def_train = [(''train'', \<lambda>e. Object ''function'')]"

text \<open>\<^verbatim>\<open>train(model, train_data, val_data, test_data, epochs, lr)\<close> binds no name.\<close>

definition cell_run_train :: cell where
  "cell_run_train = []"

definition cell_download :: cell where
  "cell_download =
     [(''TRAIN_PATH'', \<lambda>e. StrV ''./sherlockholmes.train.txt''),
      (''VALID_PATH'', \<lambda>e. StrV ''./sherlockholmes.valid.txt''),
      (''TEST_PATH'', \<lambda>e. StrV ''./sherlockholmes.test.txt''),
      (''PREDICT_PATH'', \<lambda>e. StrV ''./tinyshakespeare/input.txt''),
      (''sherlockholmes_dataset'', \<lambda>e. Object ''files'')]"

definition cell_sherlock :: cell where
  "cell_sherlock =
     [(''nltk'', \<lambda>e. Object ''module''), (''moses_tokenizer'', \<lambda>e. Object ''Tokenizer''),
      (''sherlockholmes_val'', \<lambda>e. Object ''LanguageModelDataset''),
      (''sherlockholmes_val_data'', \<lambda>e. Object ''batches'')]"

definition cell_sherlock_evaluate :: cell where
  "cell_sherlock_evaluate = [(''sherlockholmes_L'', \<lambda>e. Object ''number'')]"

text \<open>
  \<^verbatim>\<open>train(model, sherlockholmes_val_data, ..., epochs=3, lr=20)\<close> passes keyword
  arguments and binds no name.
\<close>

definition cell_sherlock_train :: cell where
  "cell_sherlock_train = []"

definition cell_awd :: cell where
  "cell_awd =
     [(''awd_model_name'', \<lambda>e. StrV ''awd_lstm_lm_1150''), (''awd_model'', \<lambda>e. Object ''AWDRNN''),
      (''vocab'', \<lambda>e. Object ''Vocab'')]"

definition cell_awd_evaluate :: cell where
  "cell_awd_evaluate = [(''val_L'', \<lambda>e. Object ''number''), (''test_L'', \<lambda>e. Object ''number'')]"

text \<open>
  \<^verbatim>\<open>
  window = 2
  theta = 0.662
  lambdas = 0.1279
  bptt = 2000
  cache_model = nlp.model.train.get_cache_model(...)
  \<close>
\<close>

definition cell_cache :: cell where
  "cell_cache =
     [(''window'', \<lambda>e. IntV 2), (''theta'', \<lambda>e. FloatV 0.662), (''lambdas'', \<lambda>e. FloatV 0.1279),
      (''bptt'', \<lambda>e. IntV 2000), (''cache_model'', \<lambda>e. Object ''CacheCell'')]"

definition cell_cache_data :: cell where
  "cell_cache_data =
     [(''val_batch_size'', \<lambda>e. IntV 1), (''val_data'', \<lambda>e. Object ''NDArray''),
      (''test_batch_size'', \<lambda>e. IntV 1), (''test_data'', \<lambda>e. Object ''NDArray'')]"

definition cell_def_get_batch :: cell where
  "cell_def_get_batch = [(''get_batch'', \<lambda>e. Object ''function'')]"

definition cell_def_evaluate_cache :: cell where
  "cell_def_evaluate_cache = [(''evaluate_cache'', \<lambda>e. Object ''function'')]"

definition cell_cache_evaluate :: cell where
  "cell_cache_evaluate = [(''val_L'', \<lambda>e. Object ''number''), (''test_L'', \<lambda>e. Object ''number'')]"

text \<open>The cells before the hyperparameter cell, between it and the cache cell, and after.\<close>

definition cells_before :: "cell list" where
  "cells_before = [cell_imports, cell_environment]"

definition cells_between :: "cell list" where
  "cells_between =
     [cell_dataset, cell_model, cell_trainer, cell_def_detach, cell_def_evaluate,
      cell_def_train, cell_run_train, cell_download, cell_sherlock, cell_sherlock_evaluate,
      cell_sherlock_train, cell_awd, cell_awd_evaluate]"

definition cells_after :: "cell list" where
  "cells_after =
     [cell_cache_data, cell_def_get_batch, cell_def_evaluate_cache, cell_cache_evaluate]"

definition notebook :: "cell list" where
  "notebook =
     cells_before @ [cell_hyperparameters] @ cells_between @ [cell_cache] @ cells_after"

text \<open>The global namespace after the first \<open>k\<close> code cells have run.\<close>

definition env_after :: "nat \<Rightarrow> env" where
  "env_after k = foldl exec_cell Map.empty (take k notebook)"

section \<open>What the claims say, as definitions\<close>

subsection \<open>The evaluation loops\<close>






subsection \<open>Monitors on the events of \<open>train\<close>\<close>

text \<open>
  A monitor reads the events from left to right; it stops with \<open>None\<close> at the first event
  that its rule forbids.
\<close>

fun run_monitor :: "('s \<Rightarrow> 'e \<Rightarrow> 's option) \<Rightarrow> 's \<Rightarrow> 'e list \<Rightarrow> 's option" where
  "run_monitor step s [] = Some s"
| "run_monitor step s (e # es) =
     (case step s e of None \<Rightarrow> None | Some s' \<Rightarrow> run_monitor step s' es)"

text \<open>
  The order of the steps of a batch (claim C2): inside the recording, forward passes each
  followed by its loss; then, when there was at least one, the backward pass, the clipping
  with the threshold \<open>c\<close>, and \<^verbatim>\<open>trainer.step(1)\<close>, in this order and once each. A
  recording without any forward pass (\<open>NothingRecorded\<close>) admits no further event.
\<close>

datatype phase =
  Idle | Recording bool | Computed nat | Recorded | NothingRecorded | Backpropagated | Clipped

fun order_step :: "real \<Rightarrow> phase \<Rightarrow> ('nd, 'a) event \<Rightarrow> phase option" where
  "order_step c p RecordEnter = (case p of Idle \<Rightarrow> Some (Recording False) | _ \<Rightarrow> None)"
| "order_step c p (Forward j X h h') = (case p of Recording b \<Rightarrow> Some (Computed j) | _ \<Rightarrow> None)"
| "order_step c p (Loss j' y) =
     (case p of Computed j \<Rightarrow> if j' = j then Some (Recording True) else None | _ \<Rightarrow> None)"
| "order_step c p RecordExit =
     (case p of Recording b \<Rightarrow> Some (if b then Recorded else NothingRecorded) | _ \<Rightarrow> None)"
| "order_step c p Backward = (case p of Recorded \<Rightarrow> Some Backpropagated | _ \<Rightarrow> None)"
| "order_step c p (ClipGlobalNorm c') =
     (case p of Backpropagated \<Rightarrow> if c' = c then Some Clipped else None | _ \<Rightarrow> None)"
| "order_step c p (TrainerStep n) =
     (case p of Clipped \<Rightarrow> if n = 1 then Some Idle else None | _ \<Rightarrow> None)"
| "order_step c p e = (case p of Idle \<Rightarrow> Some Idle | _ \<Rightarrow> None)"

fun is_step :: "('nd, 'a) event \<Rightarrow> bool" where
  "is_step (TrainerStep n) = True"
| "is_step _ = False"


text \<open>
  The hidden states across batches (claim C3). \<open>carried_ok val hist produced fed\<close>: the
  state \<open>fed\<close> to a forward pass has, leaf by leaf, the values of the state \<open>produced\<close>
  before (\<open>val\<close> reads the value of a tensor), and none of its leaves has a gradient
  history (\<open>hist\<close> tells whether a tensor has one).
\<close>

definition carried_ok :: "('a \<Rightarrow> 'v) \<Rightarrow> ('a \<Rightarrow> bool) \<Rightarrow> 'a hidden \<Rightarrow> 'a hidden \<Rightarrow> bool" where
  "carried_ok val hist produced fed =
     (map val (leaves fed) = map val (leaves produced)
      \<and> list_all (\<lambda>t. \<not> hist t) (leaves fed))"

text \<open>
  On the log of an evaluation loop: the state given to each call after the first is the
  detached state that the call before returned.
\<close>

fun chained ::
  "('a \<Rightarrow> 'a) \<Rightarrow> ('a \<Rightarrow> 'v) \<Rightarrow> ('a \<Rightarrow> bool) \<Rightarrow> ('a hidden \<times> 'a hidden) list \<Rightarrow> bool" where
  "chained dt val hist [] = True"
| "chained dt val hist [c] = True"
| "chained dt val hist (c # c' # cs) =
     (fst c' = detach dt (snd c) \<and> carried_ok val hist (snd c) (fst c')
      \<and> chained dt val hist (c' # cs))"

text \<open>
  The state that the next call would be given: the detached state that the last call
  returned (when there was a call).
\<close>

definition detached_state :: "('a \<Rightarrow> 'a) \<Rightarrow> ('a hidden \<times> 'a hidden) list \<Rightarrow> 'a hidden \<Rightarrow> bool" where
  "detached_state dt calls h = (calls = [] \<or> h = detach dt (snd (last calls)))"

text \<open>
  On the events of \<open>train\<close>: for every device the monitor keeps the hidden state last
  produced for it (by \<^verbatim>\<open>begin_state\<close> or by a forward pass), what \<^verbatim>\<open>hiddens\<close> holds for it
  now, and whether that went through \<open>detach\<close> since it was produced. A forward pass must
  be given the current state, which must have gone through \<open>detach\<close>.
\<close>

fun flow_step ::
  "('a \<Rightarrow> 'a) \<Rightarrow> ('a \<Rightarrow> 'v) \<Rightarrow> ('a \<Rightarrow> bool) \<Rightarrow> ('a hidden \<times> 'a hidden \<times> bool) list \<Rightarrow>
   ('nd, 'a) event \<Rightarrow> ('a hidden \<times> 'a hidden \<times> bool) list option" where
  "flow_step dt val hist cs (BeginState hs) = Some (map (\<lambda>h. (h, h, False)) hs)"
| "flow_step dt val hist cs Detach = Some (map (\<lambda>(p, c, d). (p, detach dt c, True)) cs)"
| "flow_step dt val hist cs (Forward j X h h') =
     (if j < length cs \<and> snd (snd (cs ! j)) \<and> h = fst (snd (cs ! j))
         \<and> carried_ok val hist (fst (cs ! j)) h
      then Some (cs[j := (h', h', False)]) else None)"
| "flow_step dt val hist cs e = Some cs"

text \<open>
  Invariants of the monitor's state \<open>cs\<close> against the list \<^verbatim>\<open>hiddens\<close> of the loop:
  \<open>flow_kept\<close> says that the current states are those of \<^verbatim>\<open>hiddens\<close> and carry the values of
  the states produced; \<open>flow_ready\<close> says in addition that from device \<open>j\<close> on they have
  gone through \<open>detach\<close> and may be given to a forward pass.
\<close>

definition flow_ready ::
  "('a \<Rightarrow> 'v) \<Rightarrow> ('a \<Rightarrow> bool) \<Rightarrow> nat \<Rightarrow> ('a hidden \<times> 'a hidden \<times> bool) list \<Rightarrow> 'a hidden list \<Rightarrow> bool" where
  "flow_ready val hist j cs hs =
     (map (\<lambda>e. fst (snd e)) cs = hs
      \<and> (\<forall>k<length cs. map val (leaves (fst (snd (cs ! k)))) = map val (leaves (fst (cs ! k))))
      \<and> (\<forall>k<length cs. j \<le> k \<longrightarrow>
            snd (snd (cs ! k)) \<and> carried_ok val hist (fst (cs ! k)) (fst (snd (cs ! k)))))"

definition flow_kept ::
  "('a \<Rightarrow> 'v) \<Rightarrow> ('a hidden \<times> 'a hidden \<times> bool) list \<Rightarrow> 'a hidden list \<Rightarrow> bool" where
  "flow_kept val cs hs =
     (map (\<lambda>e. fst (snd e)) cs = hs
      \<and> (\<forall>k<length cs. map val (leaves (fst (snd (cs ! k)))) = map val (leaves (fst (cs ! k)))))"








subsection \<open>The hyperparameters\<close>

text \<open>
  The names that the hyperparameter cell binds, the values it gives them (with \<open>b\<close> for
  \<^verbatim>\<open>bptt\<close>), and the cells that bind none of these names.
\<close>

definition hyperparameters_are :: "int \<Rightarrow> env \<Rightarrow> bool" where
  "hyperparameters_are b e =
     (e ''batch_size'' = Some (IntV 20) \<and> e ''lr'' = Some (IntV 20) \<and> e ''epochs'' = Some (IntV 3)
      \<and> e ''grad_clip'' = Some (FloatV 0.25) \<and> e ''bptt'' = Some (IntV b))"

definition hyperparameter_names :: "string list" where
  "hyperparameter_names = [''batch_size'', ''lr'', ''epochs'', ''bptt'', ''grad_clip'']"

definition leaves_hyperparameters :: "cell \<Rightarrow> bool" where
  "leaves_hyperparameters c = list_all (\<lambda>n. n \<notin> set (map fst c)) hyperparameter_names"

section \<open>Small instances of the framework\<close>

text \<open>
  Concrete stand-ins for the framework primitives, on which the functions above can be run.
  A tensor is a pair of a value and the length of its gradient history; detaching a tensor
  keeps the value and empties the history.
\<close>

definition drop_history :: "int \<times> nat \<Rightarrow> int \<times> nat" where
  "drop_history t = (fst t, 0)"

definition toy_begin_state :: "nat \<Rightarrow> unit \<Rightarrow> (int \<times> nat) hidden" where
  "toy_begin_state batch_size ctx = PyList [Tensor (0, 0), Tensor (0, 0)]"

text \<open>
  A model whose output is its input plus the sum of the values of the hidden state; the
  tensors of the state it returns have a gradient history.
\<close>

definition toy_model :: "int \<Rightarrow> (int \<times> nat) hidden \<Rightarrow> int \<times> (int \<times> nat) hidden" where
  "toy_model x h =
     (let s = sum_list (map fst (leaves h))
      in (x + s, PyTuple [Tensor (x + s, 1), Tensor (s, 1)]))"

definition toy_loss :: "int \<Rightarrow> int \<Rightarrow> fl list" where
  "toy_loss output target = [Num (real_of_int (output + target)), Num 1]"

text \<open>
  A cache model that returns one output for every target token, the token itself, and
  a negative log-probability that is the number of the token.
\<close>

definition toy_cache_model :: "(nat, int \<times> nat, nat, nat, nat) cache_model" where
  "toy_cache_model data target next_word_history cache_history h =
     (target, length data, length target,
      PyTuple [Tensor (int (length data) + sum_list (map fst (leaves h)), 1)])"

definition toy_nll :: "nat \<Rightarrow> fl" where
  "toy_nll out = Num (real out)"

definition toy_has_history :: "int \<times> nat \<Rightarrow> bool" where
  "toy_has_history t = (0 < snd t)"

definition toy_framework :: "(unit, int, int, int \<times> nat) framework" where
  "toy_framework =
     \<lparr>fw_begin_state = toy_begin_state, fw_forward = (\<lambda>tr. toy_model), fw_loss = toy_loss,
      fw_split_and_load = (\<lambda>d ctxs. map (\<lambda>ctx. d) ctxs), fw_size = (\<lambda>X. 2),
      fw_detach = drop_history\<rparr>"

section \<open>Properties of \<open>detach\<close> and \<open>get_batch\<close>\<close>

lemma leaves_detach: "leaves (detach dt h) = map dt (leaves h)"
  by (induction dt h rule: detach.induct) (simp_all add: map_concat comp_def cong: map_cong)

lemma shape_of_detach: "shape_of (detach dt h) = shape_of h"
  by (induction dt h rule: detach.induct) (simp_all cong: map_cong)

lemma only_lists_detach: "only_lists (detach dt h)"
  by (induction dt h rule: detach.induct) (simp_all add: list_all_iff)

lemma detach_idem:
  assumes "\<And>x. dt (dt x) = dt x"
  shows "detach dt (detach dt h) = detach dt h"
  using assms by (induction dt h rule: detach.induct) (simp_all cong: map_cong)

lemma get_batch_None:
  assumes "0 \<le> bptt" "0 \<le> i" "i \<le> int (length ds) - 1"
  shows "get_batch bptt ds i None =
           (take (nat (min bptt (int (length ds) - 1 - i))) (drop (nat i) ds),
            take (nat (min bptt (int (length ds) - 1 - i))) (drop (nat i + 1) ds))"
  using assms
  by (auto simp: get_batch_def py_slice_def adjust_index_def Let_def min_def
      nat_add_distrib nat_diff_distrib)

text \<open>
  Claim C8. For every sequence \<open>ds\<close> and every index \<open>i\<close> with \<open>0 \<le> i \<le> len(ds) - 1\<close>,
  \<open>get_batch ds i\<close> returns \<open>data = ds[i : i+L]\<close> and \<open>target = ds[i+1 : i+1+L]\<close> with
  \<open>L = min(bptt, len(ds) - 1 - i)\<close>: both have length \<open>L\<close>, and \<open>target[k]\<close> is the element
  of \<open>ds\<close> that follows \<open>data[k]\<close>. A \<open>seq_len\<close> that is \<open>None\<close> or \<open>0\<close> is replaced by
  \<open>bptt\<close>. The global \<open>bptt\<close> is a non-negative constant of the notebook (35, later 2000).
\<close>

theorem get_batch_slices:
  assumes "0 \<le> bptt" and "0 \<le> i" and "i \<le> int (length ds) - 1"
  shows "(let L = nat (min bptt (int (length ds) - 1 - i));
              (data, target) = get_batch bptt ds i None
          in data = take L (drop (nat i) ds) \<and> target = take L (drop (nat i + 1) ds)
             \<and> length data = L \<and> length target = L
             \<and> (\<forall>k<L. data ! k = ds ! (nat i + k) \<and> target ! k = ds ! (nat i + k + 1)))
         \<and> get_batch bptt ds i None = get_batch bptt ds i (Some bptt)
         \<and> get_batch bptt ds i (Some 0) = get_batch bptt ds i (Some bptt)"
proof -
  let ?L = "nat (min bptt (int (length ds) - 1 - i))"
  have len: "nat i + 1 + ?L \<le> length ds" using assms by (simp add: min_def) linarith
  have "length (take ?L (drop (nat i) ds)) = ?L" using len by simp
  moreover have "length (take ?L (drop (nat i + 1) ds)) = ?L" using len by simp
  moreover have "\<forall>k<?L. take ?L (drop (nat i) ds) ! k = ds ! (nat i + k)
      \<and> take ?L (drop (nat i + 1) ds) ! k = ds ! (nat i + k + 1)"
    using len by (simp add: add.commute add.left_commute)
  ultimately have main: "(let L = ?L; (data, target) = get_batch bptt ds i None
          in data = take L (drop (nat i) ds) \<and> target = take L (drop (nat i + 1) ds)
             \<and> length data = L \<and> length target = L
             \<and> (\<forall>k<L. data ! k = ds ! (nat i + k) \<and> target ! k = ds ! (nat i + k + 1)))"
    using get_batch_None [OF assms] by (simp add: Let_def)
  have falsy: "get_batch bptt ds i None = get_batch bptt ds i (Some bptt)"
    "get_batch bptt ds i (Some 0) = get_batch bptt ds i (Some bptt)"
    by (simp_all add: get_batch_def)
  from main falsy show ?thesis by blast
qed

theorem get_batch_slices_witness:
  "(0::int) \<le> 2 \<and> (0::int) \<le> 1 \<and> (1::int) \<le> int (length [10, 11, 12, 13, 14::nat]) - 1
   \<and> get_batch 2 [10, 11, 12, 13, 14::nat] 1 None = ([11, 12], [12, 13])
   \<and> get_batch 2 [10, 11, 12, 13, 14::nat] 1 (Some 0) = ([11, 12], [12, 13])"
  using get_batch_slices [of 2 1 "[10, 11, 12, 13, 14::nat]"]
  by (simp add: Let_def split: prod.splits)

text \<open>
  Claim C9. For every finite nested structure of tuples and lists with tensor leaves,
  \<open>detach\<close> returns a structure of the same nesting shape and the same leaf order, in which
  every tuple and every list has become a list and every leaf is replaced by its detached
  value; and if detaching a leaf twice equals detaching it once, then
  \<open>detach (detach h) = detach h\<close>.
\<close>

theorem detach_structure:
  "shape_of (detach dt h) = shape_of h
   \<and> leaves (detach dt h) = map dt (leaves h)
   \<and> only_lists (detach dt h)
   \<and> ((\<forall>x. dt (dt x) = dt x) \<longrightarrow> detach dt (detach dt h) = detach dt h)"
  by (simp add: shape_of_detach leaves_detach only_lists_detach detach_idem)

theorem detach_structure_witness:
  "(\<forall>x. drop_history (drop_history x) = drop_history x)
   \<and> detach drop_history (PyTuple [Tensor (3, 7), PyList [Tensor (4, 1)], PyTuple []])
     = PyList [Tensor (3, 0), PyList [Tensor (4, 0)], PyList []]
   \<and> detach drop_history (detach drop_history
        (PyTuple [Tensor (3, 7), PyList [Tensor (4, 1)], PyTuple []]))
     = PyList [Tensor (3, 0), PyList [Tensor (4, 0)], PyList []]"
proof -
  have idem: "\<forall>x. drop_history (drop_history x) = drop_history x"
    by (simp add: drop_history_def)
  show ?thesis
    using idem detach_structure [of drop_history
        "PyTuple [Tensor (3, 7), PyList [Tensor (4, 1)], PyTuple []]"]
    by (simp add: drop_history_def)
qed

section \<open>Properties of the evaluation loops\<close>























section \<open>Properties of the top-level bindings\<close>

lemma exec_cell_other: "n \<notin> set (map fst c) \<Longrightarrow> exec_cell e c n = e n"
  unfolding exec_cell_def
  by (induction c arbitrary: e) (simp_all add: assign_def)

lemma exec_cell_keeps:
  "leaves_hyperparameters c \<Longrightarrow> hyperparameters_are b (exec_cell e c) = hyperparameters_are b e"
  by (simp add: leaves_hyperparameters_def hyperparameter_names_def hyperparameters_are_def
      exec_cell_other)

lemma exec_cells_keep:
  "list_all leaves_hyperparameters cs \<Longrightarrow>
     hyperparameters_are b (foldl exec_cell e cs) = hyperparameters_are b e"
  by (induction cs arbitrary: e) (simp_all add: exec_cell_keeps)

lemma list_all_take: "list_all P xs \<Longrightarrow> list_all P (take j xs)"
  by (auto simp: list_all_iff dest: in_set_takeD)

lemma between_keep: "list_all leaves_hyperparameters cells_between"
  by (simp add: cells_between_def leaves_hyperparameters_def hyperparameter_names_def
      cell_dataset_def cell_model_def cell_trainer_def cell_def_detach_def cell_def_evaluate_def
      cell_def_train_def cell_run_train_def cell_download_def cell_sherlock_def
      cell_sherlock_evaluate_def cell_sherlock_train_def cell_awd_def cell_awd_evaluate_def)

lemma after_keep: "list_all leaves_hyperparameters cells_after"
  by (simp add: cells_after_def leaves_hyperparameters_def hyperparameter_names_def
      cell_cache_data_def cell_def_get_batch_def cell_def_evaluate_cache_def
      cell_cache_evaluate_def)

lemma hyper_cell:
  "hyperparameters_are 35 (foldl exec_cell Map.empty (cells_before @ [cell_hyperparameters]))"
  by (simp add: hyperparameters_are_def cells_before_def cell_imports_def cell_environment_def
      cell_hyperparameters_def exec_cell_def assign_def)

lemma cache_cell:
  "hyperparameters_are b e \<Longrightarrow> hyperparameters_are 2000 (exec_cell e cell_cache)"
  by (simp add: hyperparameters_are_def cell_cache_def exec_cell_def assign_def)

lemma length_cells:
  "length cells_before = 2" "length cells_between = 13" "length cells_after = 4"
  by (simp_all add: cells_before_def cells_between_def cells_after_def)

lemma env_after_hyper:
  assumes "3 \<le> k"
  shows "hyperparameters_are (if k \<le> 16 then 35 else 2000) (env_after k)"
proof (cases "k \<le> 16")
  case True
  have "take k notebook = cells_before @ [cell_hyperparameters] @ take (k - 3) cells_between"
    using assms True by (simp add: notebook_def length_cells take_Cons')
  then show ?thesis
    using True hyper_cell
    by (simp add: env_after_def exec_cells_keep list_all_take between_keep)
next
  case False
  have "take k notebook = cells_before @ [cell_hyperparameters] @ cells_between @ [cell_cache]
      @ take (k - 17) cells_after"
    using False by (simp add: notebook_def length_cells take_Cons')
  then show ?thesis
    using False hyper_cell
    by (simp add: env_after_def exec_cells_keep list_all_take between_keep after_keep cache_cell)
qed

text \<open>
  Claim C7, as amended. After the hyperparameter cell (the third code cell), at every
  later point of the notebook's execution, \<^verbatim>\<open>batch_size\<close> is 20, \<^verbatim>\<open>lr\<close> is 20,
  \<^verbatim>\<open>epochs\<close> is 3 and \<^verbatim>\<open>grad_clip\<close> is 0.25; \<^verbatim>\<open>bptt\<close> is 35 until the cell that loads the
  cache model (the 17th code cell) rebinds it, and 2000 from then on. So batchifying and
  training see \<^verbatim>\<open>bptt = 35\<close>, and \<open>get_batch\<close> and \<open>evaluate_cache\<close> see \<^verbatim>\<open>bptt = 2000\<close>.
\<close>

theorem hyperparameters_after_cell:
  assumes "3 \<le> k"
  shows "env_after k ''batch_size'' = Some (IntV 20) \<and> env_after k ''lr'' = Some (IntV 20)
         \<and> env_after k ''epochs'' = Some (IntV 3) \<and> env_after k ''grad_clip'' = Some (FloatV 0.25)
         \<and> env_after k ''bptt'' = Some (IntV (if k \<le> 16 then 35 else 2000))"
  using env_after_hyper [OF assms] by (simp add: hyperparameters_are_def)

theorem hyperparameters_after_cell_witness:
  "(3::nat) \<le> 12 \<and> env_after 12 ''batch_size'' = Some (IntV 20) \<and> env_after 12 ''lr'' = Some (IntV 20)
   \<and> env_after 12 ''epochs'' = Some (IntV 3) \<and> env_after 12 ''grad_clip'' = Some (FloatV 0.25)
   \<and> env_after 12 ''bptt'' = Some (IntV 35)"
  using hyperparameters_after_cell [of 12] by simp

text \<open>
  Claim C7 as stated fails: \<^verbatim>\<open>bptt\<close> does not keep its initially assigned value. It is 35
  after the hyperparameter cell and 2000 after the last cell.
\<close>

theorem bptt_rebound_counterexample:
  "env_after 3 ''bptt'' = Some (IntV 35) \<and> env_after 21 ''bptt'' = Some (IntV 2000)"
  using env_after_hyper [of 3] env_after_hyper [of 21] by (simp add: hyperparameters_are_def)

section \<open>Properties of the training loop\<close>

lemma run_monitor_append:
  "run_monitor step s (a @ b) =
     (case run_monitor step s a of None \<Rightarrow> None | Some s' \<Rightarrow> run_monitor step s' b)"
  by (induction a arbitrary: s) (simp_all split: option.splits)

lemma truediv_Inl: "truediv a n = Inl e \<Longrightarrow> n = 0"
  by (cases a) (simp_all split: if_splits)

subsection \<open>The loop over the devices\<close>

lemma devices_order:
  "run_monitor (order_step c) (Recording b) (fst (train_devices fw tr j zs hs Ls))
     = Some (Recording (b \<or> zs \<noteq> []))"
proof (induction zs arbitrary: tr j hs Ls b)
  case Nil
  then show ?case by simp
next
  case (Cons z zs)
  obtain X y h where z: "z = (X, y, h)" by (cases z)
  show ?case
    using Cons [of True] by (simp add: z split_beta Let_def)
qed


lemma devices_steps: "filter is_step (fst (train_devices fw tr j zs hs Ls)) = []"
proof (induction zs arbitrary: tr j hs Ls)
  case Nil
  then show ?case by simp
next
  case (Cons z zs)
  obtain X y h where z: "z = (X, y, h)" by (cases z)
  show ?case
    using Cons by (simp add: z split_beta Let_def)
qed

subsection \<open>One batch\<close>

lemma train_batch_cases:
  obtains
    (no_devices) "batch_triples fw ctxs data target hiddens = []"
      "train_batch fw c ctxs tr i data target hiddens total_L =
         ([Detach, RecordEnter] @ fst (batch_devices fw ctxs tr data target hiddens) @ [RecordExit],
          fst (snd (batch_devices fw ctxs tr data target hiddens)), total_L, Some AttributeError)"
  | (silent) total_L' where "batch_triples fw ctxs data target hiddens \<noteq> []"
      "train_batch fw c ctxs tr i data target hiddens total_L =
         ([Detach, RecordEnter] @ fst (batch_devices fw ctxs tr data target hiddens)
            @ [RecordExit, Backward, ClipGlobalNorm c, TrainerStep 1],
          fst (snd (batch_devices fw ctxs tr data target hiddens)), total_L', None)"
  | (report) cur_L where "batch_triples fw ctxs data target hiddens \<noteq> []"
      "train_batch fw c ctxs tr i data target hiddens total_L =
         ([Detach, RecordEnter] @ fst (batch_devices fw ctxs tr data target hiddens)
            @ [RecordExit, Backward, ClipGlobalNorm c, TrainerStep 1, Report cur_L],
          fst (snd (batch_devices fw ctxs tr data target hiddens)), PyFloat (Num 0), None)"
proof (cases "batch_triples fw ctxs data target hiddens = []")
  case True
  have "train_batch fw c ctxs tr i data target hiddens total_L =
         ([Detach, RecordEnter] @ fst (batch_devices fw ctxs tr data target hiddens) @ [RecordExit],
          fst (snd (batch_devices fw ctxs tr data target hiddens)), total_L, Some AttributeError)"
    using True
    by (simp add: train_batch_def batch_triples_def batch_devices_def Let_def split_beta)
  then show ?thesis using True no_devices by blast
next
  case ne: False
  let ?t = "py_add total_L (foldl py_add (PyInt 0)
      (map (\<lambda>l. NpFloat (fl_sum l)) (snd (snd (batch_devices fw ctxs tr data target hiddens)))))"
  show ?thesis
  proof (cases "i mod log_interval = 0 \<and> 0 < i")
    case True
    obtain cur_L where cur: "truediv ?t log_interval = Inr cur_L"
      by (cases "truediv ?t log_interval") (auto dest: truediv_Inl simp: log_interval_def)
    have "train_batch fw c ctxs tr i data target hiddens total_L =
         ([Detach, RecordEnter] @ fst (batch_devices fw ctxs tr data target hiddens)
            @ [RecordExit, Backward, ClipGlobalNorm c, TrainerStep 1, Report cur_L],
          fst (snd (batch_devices fw ctxs tr data target hiddens)), PyFloat (Num 0), None)"
      using ne True cur
      by (simp add: train_batch_def batch_triples_def batch_devices_def Let_def split_beta)
    then show ?thesis using ne report by blast
  next
    case False
    have "train_batch fw c ctxs tr i data target hiddens total_L =
         ([Detach, RecordEnter] @ fst (batch_devices fw ctxs tr data target hiddens)
            @ [RecordExit, Backward, ClipGlobalNorm c, TrainerStep 1],
          fst (snd (batch_devices fw ctxs tr data target hiddens)), ?t, None)"
      using ne False
      by (cases "i = 0") (simp_all add: train_batch_def batch_triples_def batch_devices_def
          Let_def split_beta)
    then show ?thesis using ne silent by blast
  qed
qed

lemma batch_order:
  "run_monitor (order_step c) Idle (fst (train_batch fw c ctxs tr i data target hiddens total_L))
     = Some (if snd (snd (snd (train_batch fw c ctxs tr i data target hiddens total_L))) = None
             then Idle else NothingRecorded)"
  by (cases rule: train_batch_cases [of fw ctxs data target hiddens c tr i total_L])
    (simp_all add: run_monitor_append devices_order batch_devices_def)

lemma train_batch_steps:
  "length (filter is_step (fst (train_batch fw c ctxs tr i data target hiddens total_L)))
     = (if snd (snd (snd (train_batch fw c ctxs tr i data target hiddens total_L))) = None
        then 1 else 0)"
  by (cases rule: train_batch_cases [of fw ctxs data target hiddens c tr i total_L])
    (simp_all add: devices_steps batch_devices_def)


subsection \<open>The loop over the batches\<close>

lemma train_batches_Cons:
  "train_batches fw c ctxs tr i ((data, target) # rest) hiddens total_L =
     (let b = train_batch fw c ctxs tr i data target hiddens total_L
      in case snd (snd (snd b)) of
           Some e \<Rightarrow> (fst b, Some e)
         | None \<Rightarrow>
             (fst b @ fst (train_batches fw c ctxs (tr @ fst b) (Suc i) rest (fst (snd b))
                            (fst (snd (snd b)))),
              snd (train_batches fw c ctxs (tr @ fst b) (Suc i) rest (fst (snd b))
                     (fst (snd (snd b))))))"
  by (simp add: Let_def split_beta split: prod.splits option.splits)

lemma batches_order:
  "run_monitor (order_step c) Idle (fst (train_batches fw c ctxs tr i bs hiddens total_L))
     = Some (if snd (train_batches fw c ctxs tr i bs hiddens total_L) = None
             then Idle else NothingRecorded)"
proof (induction bs arbitrary: tr i hiddens total_L)
  case Nil
  then show ?case by simp
next
  case (Cons b bs)
  obtain data target where b: "b = (data, target)" by (cases b)
  show ?case
    unfolding b train_batches_Cons Let_def
    by (simp add: run_monitor_append batch_order Cons split: option.splits)
qed

lemma batches_steps:
  "snd (train_batches fw c ctxs tr i bs hiddens total_L) = None \<Longrightarrow>
     length (filter is_step (fst (train_batches fw c ctxs tr i bs hiddens total_L))) = length bs"
proof (induction bs arbitrary: tr i hiddens total_L)
  case Nil
  then show ?case by simp
next
  case (Cons b bs)
  obtain data target where b: "b = (data, target)" by (cases b)
  show ?case
    using Cons.prems unfolding b train_batches_Cons Let_def
    by (simp add: train_batch_steps Cons.IH split: option.splits)
qed


subsection \<open>One epoch\<close>

lemma train_epoch_cases:
  fixes fw :: "('c, 'nd, 'o, 'a) framework"
    and c batch_size ctxs train_data val_data test_data tr epoch best lr
  defines "r \<equiv> train_epoch fw c batch_size ctxs train_data val_data test_data tr epoch best lr"
    and "pre \<equiv> BeginState (epoch_hiddens fw batch_size ctxs)
                # fst (epoch_batches fw c batch_size ctxs train_data tr)"
  obtains
    (batch_error) e where "snd (epoch_batches fw c batch_size ctxs train_data tr) = Some e"
      "r = \<lparr>events = pre, best_val = best, learning_rate = lr, raised = Some e\<rparr>"
  | (evaluate_error) e where "snd (epoch_batches fw c batch_size ctxs train_data tr) = None"
      "r = \<lparr>events = pre @ [WaitAll], best_val = best, learning_rate = lr, raised = Some e\<rparr>"
  | (test_error) val_L e where "snd (epoch_batches fw c batch_size ctxs train_data tr) = None"
      "fl_less (fl_of val_L) (fl_of best)"
      "r = \<lparr>events = pre @ [WaitAll, Evaluate Val val_L], best_val = val_L,
            learning_rate = lr, raised = Some e\<rparr>"
  | (improved) val_L test_L where "snd (epoch_batches fw c batch_size ctxs train_data tr) = None"
      "fl_less (fl_of val_L) (fl_of best)"
      "r = \<lparr>events = pre @ [WaitAll, Evaluate Val val_L, Evaluate Test test_L, SaveParams epoch],
            best_val = val_L, learning_rate = lr, raised = None\<rparr>"
  | (not_improved) val_L where "snd (epoch_batches fw c batch_size ctxs train_data tr) = None"
      "\<not> fl_less (fl_of val_L) (fl_of best)"
      "r = \<lparr>events = pre @ [WaitAll, Evaluate Val val_L, SetLearningRate (lr * 0.25)],
            best_val = best, learning_rate = lr * 0.25, raised = None\<rparr>"
proof (cases "snd (epoch_batches fw c batch_size ctxs train_data tr)")
  case (Some e)
  then have "r = \<lparr>events = pre, best_val = best, learning_rate = lr, raised = Some e\<rparr>"
    by (simp add: r_def pre_def train_epoch_def epoch_batches_def epoch_hiddens_def Let_def
        split_beta)
  then show ?thesis using Some batch_error by blast
next
  case None
  show ?thesis
  proof (cases ctxs)
    case Nil
    then have "r = \<lparr>events = pre @ [WaitAll], best_val = best, learning_rate = lr,
        raised = Some IndexError\<rparr>"
      using None
      by (simp add: r_def pre_def train_epoch_def epoch_batches_def epoch_hiddens_def Let_def
          split_beta)
    then show ?thesis using None evaluate_error by blast
  next
    case (Cons ctx0 rest)
    let ?tr2 = "tr @ pre @ [WaitAll]"
    show ?thesis
    proof (cases "evaluate (fw_begin_state fw) (fw_forward fw ?tr2) (fw_loss fw) (fw_detach fw)
        val_data batch_size ctx0")
      case (Inl e)
      then have "r = \<lparr>events = pre @ [WaitAll], best_val = best, learning_rate = lr,
          raised = Some e\<rparr>"
        using None Cons
        by (simp add: r_def pre_def train_epoch_def epoch_batches_def epoch_hiddens_def Let_def
            split_beta)
      then show ?thesis using None evaluate_error by blast
    next
      case (Inr val_L)
      show ?thesis
      proof (cases "fl_less (fl_of val_L) (fl_of best)")
        case True
        show ?thesis
        proof (cases "evaluate (fw_begin_state fw)
            (fw_forward fw (?tr2 @ [Evaluate Val val_L])) (fw_loss fw) (fw_detach fw)
            test_data batch_size ctx0")
          case (Inl e)
          then have "r = \<lparr>events = pre @ [WaitAll, Evaluate Val val_L], best_val = val_L,
              learning_rate = lr, raised = Some e\<rparr>"
            using None Cons Inr True
            by (simp add: r_def pre_def train_epoch_def epoch_batches_def epoch_hiddens_def
                Let_def split_beta)
          then show ?thesis using None True test_error by blast
        next
          case (Inr test_L)
          then have "r = \<lparr>events = pre @ [WaitAll, Evaluate Val val_L, Evaluate Test test_L,
                SaveParams epoch],
              best_val = val_L, learning_rate = lr, raised = None\<rparr>"
            using None Cons \<open>evaluate _ _ _ _ val_data _ _ = Inr val_L\<close> True
            by (simp add: r_def pre_def train_epoch_def epoch_batches_def epoch_hiddens_def
                Let_def split_beta)
          then show ?thesis using None True improved by blast
        qed
      next
        case False
        then have "r = \<lparr>events = pre @ [WaitAll, Evaluate Val val_L, SetLearningRate (lr * 0.25)],
            best_val = best, learning_rate = lr * 0.25, raised = None\<rparr>"
          using None Cons Inr
          by (simp add: r_def pre_def train_epoch_def epoch_batches_def epoch_hiddens_def
              Let_def split_beta)
        then show ?thesis using None False not_improved by blast
      qed
    qed
  qed
qed

lemma epoch_order:
  "run_monitor (order_step c) Idle
     (events (train_epoch fw c batch_size ctxs train_data val_data test_data tr epoch best lr))
     = Some (if snd (epoch_batches fw c batch_size ctxs train_data tr) = None
             then Idle else NothingRecorded)"
  by (cases rule: train_epoch_cases [of fw c batch_size ctxs train_data tr val_data test_data
        epoch best lr])
    (simp_all add: run_monitor_append batches_order epoch_batches_def)

lemma epoch_raised:
  "raised (train_epoch fw c batch_size ctxs train_data val_data test_data tr epoch best lr) = None
     \<Longrightarrow> snd (epoch_batches fw c batch_size ctxs train_data tr) = None"
  by (cases rule: train_epoch_cases [of fw c batch_size ctxs train_data tr val_data test_data
        epoch best lr]) simp_all

lemma epoch_steps:
  "raised (train_epoch fw c batch_size ctxs train_data val_data test_data tr epoch best lr) = None
     \<Longrightarrow> length (filter is_step
           (events (train_epoch fw c batch_size ctxs train_data val_data test_data tr epoch
                      best lr))) = length train_data"
  by (cases rule: train_epoch_cases [of fw c batch_size ctxs train_data tr val_data test_data
        epoch best lr])
    (simp_all add: batches_steps epoch_batches_def)


subsection \<open>The loop over the epochs\<close>

lemma epochs_order:
  "run_monitor (order_step c) Idle
     (events (train_epochs fw c batch_size ctxs train_data val_data test_data tr es best lr))
     \<noteq> None
   \<and> (raised (train_epochs fw c batch_size ctxs train_data val_data test_data tr es best lr)
        = None \<longrightarrow>
      run_monitor (order_step c) Idle
        (events (train_epochs fw c batch_size ctxs train_data val_data test_data tr es best lr))
        = Some Idle)"
proof (induction es arbitrary: tr best lr)
  case Nil
  then show ?case by simp
next
  case (Cons epoch es)
  let ?r = "train_epoch fw c batch_size ctxs train_data val_data test_data tr epoch best lr"
  show ?case
  proof (cases "raised ?r")
    case None
    then show ?thesis
      using Cons [of "tr @ events ?r" "best_val ?r" "learning_rate ?r"] epoch_raised [OF None]
      by (simp add: Let_def run_monitor_append epoch_order)
  next
    case (Some e)
    then show ?thesis by (simp add: Let_def epoch_order)
  qed
qed

lemma epochs_steps:
  "raised (train_epochs fw c batch_size ctxs train_data val_data test_data tr es best lr) = None
     \<Longrightarrow> length (filter is_step
           (events (train_epochs fw c batch_size ctxs train_data val_data test_data tr es
                      best lr))) = length es * length train_data"
proof (induction es arbitrary: tr best lr)
  case Nil
  then show ?case by simp
next
  case (Cons epoch es)
  let ?r = "train_epoch fw c batch_size ctxs train_data val_data test_data tr epoch best lr"
  show ?case
  proof (cases "raised ?r")
    case None
    then show ?thesis
      using Cons.prems Cons.IH [of "tr @ events ?r" "best_val ?r" "learning_rate ?r"]
        epoch_steps [OF None]
      by (simp add: Let_def)
  next
    case (Some e)
    then show ?thesis using Cons.prems by (simp add: Let_def)
  qed
qed


lemma toy_training_run:
  "train toy_framework (1 / 4) 20 [()] [] [(1, 2)] [(1, 2)] [(5, 6)] 2 20 =
     \<lparr>events =
        [BeginState [PyList [Tensor (0, 0), Tensor (0, 0)]], Detach, RecordEnter,
         Forward 0 1 (PyList [Tensor (0, 0), Tensor (0, 0)])
           (PyTuple [Tensor (1, 1), Tensor (0, 1)]),
         Loss 0 2, RecordExit, Backward, ClipGlobalNorm (1 / 4), TrainerStep 1, WaitAll,
         Evaluate Val (NpFloat (Num 2)), Evaluate Test (NpFloat (Num 6)), SaveParams 0,
         BeginState [PyList [Tensor (0, 0), Tensor (0, 0)]], Detach, RecordEnter,
         Forward 0 1 (PyList [Tensor (0, 0), Tensor (0, 0)])
           (PyTuple [Tensor (1, 1), Tensor (0, 1)]),
         Loss 0 2, RecordExit, Backward, ClipGlobalNorm (1 / 4), TrainerStep 1, WaitAll,
         Evaluate Val (NpFloat (Num 2)), SetLearningRate 5],
      best_val = NpFloat (Num 2), learning_rate = 5, raised = None\<rparr>"
  by code_simp

text \<open>
  Claim C2. For every batch that the training loop processes, the steps happen in this
  order: the forward passes and loss computations, then one backward pass, then the
  clipping of the gradients with the threshold \<^verbatim>\<open>grad_clip\<close>, then one \<^verbatim>\<open>trainer.step(1)\<close>;
  no optimizer step comes before the clipping of the same batch. The events of every run
  of \<open>train\<close> satisfy the monitor of this order, and a run that raises nothing makes
  exactly one optimizer step for each batch of each epoch.
\<close>

theorem train_step_order:
  "run_monitor (order_step grad_clip) Idle
     (events (train fw grad_clip batch_size ctxs tr train_data val_data test_data epochs lr))
     \<noteq> None
   \<and> (raised (train fw grad_clip batch_size ctxs tr train_data val_data test_data epochs lr)
        = None \<longrightarrow>
      run_monitor (order_step grad_clip) Idle
        (events (train fw grad_clip batch_size ctxs tr train_data val_data test_data epochs lr))
        = Some Idle
      \<and> length (filter is_step
           (events (train fw grad_clip batch_size ctxs tr train_data val_data test_data epochs
                      lr))) = nat epochs * length train_data)"
  using epochs_order [of grad_clip fw batch_size ctxs train_data val_data test_data tr
      "[0..<nat epochs]" "PyFloat PosInf" lr]
    epochs_steps [of fw grad_clip batch_size ctxs train_data val_data test_data tr
      "[0..<nat epochs]" "PyFloat PosInf" lr]
  by (simp add: train_def)

theorem train_step_order_witness:
  "raised (train toy_framework (1 / 4) 20 [()] [] [(1, 2)] [(1, 2)] [(5, 6)] 2 20) = None
   \<and> run_monitor (order_step (1 / 4)) Idle
        (events (train toy_framework (1 / 4) 20 [()] [] [(1, 2)] [(1, 2)] [(5, 6)] 2 20))
      = Some Idle
   \<and> length (filter is_step
        (events (train toy_framework (1 / 4) 20 [()] [] [(1, 2)] [(1, 2)] [(5, 6)] 2 20))) = 2
   \<and> run_monitor (order_step (1 / 4)) Idle
        [RecordEnter, Forward 0 (1::int) (Tensor (0::int, 0::nat)) (Tensor (1, 1)), Loss 0 2,
         RecordExit, Backward, TrainerStep 1] = None"
  using train_step_order [where fw = toy_framework and grad_clip = "1 / 4" and batch_size = 20
      and ctxs = "[()]" and tr = "[]" and train_data = "[(1, 2)]" and val_data = "[(1, 2)]"
      and test_data = "[(5, 6)]" and epochs = 2 and lr = 20]
  by (simp add: toy_training_run)



subsection \<open>The validation loss and the two branches\<close>
















subsection \<open>Hidden states in the evaluation loops\<close>

lemma carried_detach:
  assumes "\<forall>t. val (dt t) = val t" and "\<forall>t. \<not> hist (dt t)"
  shows "carried_ok val hist h (detach dt h)"
  using assms by (simp add: carried_ok_def leaves_detach list_all_iff comp_def)

lemma carried_detach_more:
  assumes "\<forall>t. val (dt t) = val t" and "\<forall>t. \<not> hist (dt t)"
    and "map val (leaves c) = map val (leaves p)"
  shows "carried_ok val hist p (detach dt c)"
proof -
  have "map val (leaves (detach dt c)) = map val (leaves c)"
    using assms(1) by (simp add: leaves_detach comp_def)
  then show ?thesis
    using assms by (simp add: carried_ok_def leaves_detach list_all_iff)
qed

lemma chained_snoc:
  "chained dt val hist cs \<Longrightarrow>
   (cs = [] \<or> (fst c = detach dt (snd (last cs)) \<and> carried_ok val hist (snd (last cs)) (fst c))) \<Longrightarrow>
   chained dt val hist (cs @ [c])"
  by (induction dt val hist cs rule: chained.induct) auto

lemma evaluate_loop_chained:
  assumes "\<forall>t. val (dt t) = val t" and "\<forall>t. \<not> hist (dt t)"
    and "chained dt val hist (ev_calls st)"
    and "detached_state dt (ev_calls st) (ev_hidden st)"
  shows "chained dt val hist (ev_calls (evaluate_loop forward loss dt ds st))
     \<and> detached_state dt (ev_calls (evaluate_loop forward loss dt ds st))
          (ev_hidden (evaluate_loop forward loss dt ds st))"
  using assms(3,4)
proof (induction ds arbitrary: st)
  case Nil
  then show ?case by simp
next
  case (Cons b ds)
  obtain data target where b: "b = (data, target)" by (cases b)
  show ?case
    unfolding b evaluate_loop.simps Let_def split_beta
    using Cons.prems
    by (intro Cons.IH)
      (auto simp: detached_state_def chained_snoc carried_detach [OF assms(1,2)])
qed

lemma evaluate_cache_loop_chained:
  assumes "\<forall>t. val (dt t) = val t" and "\<forall>t. \<not> hist (dt t)"
    and "chained dt val hist (ec_calls st)"
    and "detached_state dt (ec_calls st) (ec_hidden st)"
  shows "chained dt val hist
           (ec_calls (snd (evaluate_cache_loop cache_model nll dt bptt shape1 ds indices st)))
     \<and> (fst (evaluate_cache_loop cache_model nll dt bptt shape1 ds indices st) = None \<longrightarrow>
          detached_state dt
            (ec_calls (snd (evaluate_cache_loop cache_model nll dt bptt shape1 ds indices st)))
            (ec_hidden (snd (evaluate_cache_loop cache_model nll dt bptt shape1 ds indices st))))"
  using assms(3,4)
proof (induction indices arbitrary: st)
  case Nil
  then show ?case by simp
next
  case (Cons i indices)
  show ?case
  proof (cases "i = bptt")
    case True
    then show ?thesis using Cons.prems by simp
  next
    case False
    let ?m = "cache_model (fst (get_batch bptt ds i None)) (snd (get_batch bptt ds i None))
        (ec_next_word_history st) (ec_cache_history st) (ec_hidden st)"
    let ?h = "snd (snd (snd ?m))"
    have log: "chained dt val hist (ec_calls st @ [(ec_hidden st, ?h)])"
      using Cons.prems
      by (auto simp: detached_state_def chained_snoc carried_detach [OF assms(1,2)])
    show ?thesis
    proof (cases "truediv (foldl py_add (PyInt 0) (map (\<lambda>out. NpFloat (nll out)) (fst ?m))) shape1")
      case (Inl e)
      then show ?thesis using False log by (simp add: Let_def split_beta)
    next
      case (Inr q)
      show ?thesis
        using False Inr
        by (simp add: Let_def split_beta)
          (rule Cons.IH, simp_all add: log detached_state_def)
    qed
  qed
qed

subsection \<open>Hidden states in the training loop\<close>

lemma devices_flow:
  assumes "flow_ready val hist j cs hs"
    and "\<forall>k<length zs. j + k < length hs \<and> snd (snd (zs ! k)) = hs ! (j + k)"
  shows "\<exists>cs'. run_monitor (flow_step dt val hist) cs (fst (train_devices fw tr j zs hs Ls))
             = Some cs'
           \<and> flow_kept val cs' (fst (snd (train_devices fw tr j zs hs Ls)))"
  using assms
proof (induction zs arbitrary: tr j hs Ls cs)
  case Nil
  then show ?case by (simp add: flow_ready_def flow_kept_def)
next
  case (Cons z zs)
  obtain X y h where z: "z = (X, y, h)" by (cases z)
  let ?h' = "snd (fw_forward fw tr X h)"
  let ?cs1 = "cs[j := (?h', ?h', False)]"
  let ?hs1 = "hs[j := ?h']"
  have m: "map (\<lambda>e. fst (snd e)) cs = hs"
    and v: "\<forall>k<length cs. map val (leaves (fst (snd (cs ! k)))) = map val (leaves (fst (cs ! k)))"
    and r: "\<forall>k<length cs. j \<le> k \<longrightarrow>
            snd (snd (cs ! k)) \<and> carried_ok val hist (fst (cs ! k)) (fst (snd (cs ! k)))"
    using Cons.prems(1) unfolding flow_ready_def by blast+
  have len: "length cs = length hs"
    using m by (metis length_map)
  have j: "j < length hs" "h = hs ! j"
    using Cons.prems(2) [rule_format, of 0] by (simp_all add: z)
  have "map (\<lambda>e. fst (snd e)) cs ! j = fst (snd (cs ! j))"
    using j(1) len by (simp only: nth_map)
  then have cur: "fst (snd (cs ! j)) = hs ! j"
    using m by simp
  have ready: "snd (snd (cs ! j))" "carried_ok val hist (fst (cs ! j)) (fst (snd (cs ! j)))"
    using r j(1) len by simp_all
  have step: "flow_step dt val hist cs (Forward j X h ?h') = Some ?cs1"
    using j len cur ready by simp
  have m1: "map (\<lambda>e. fst (snd e)) ?cs1 = ?hs1"
    using m by (simp add: map_update)
  have v1: "\<forall>k<length ?cs1. map val (leaves (fst (snd (?cs1 ! k))))
      = map val (leaves (fst (?cs1 ! k)))"
    using v j(1) len by (simp add: nth_list_update)
  have r1: "\<forall>k<length ?cs1. Suc j \<le> k \<longrightarrow>
            snd (snd (?cs1 ! k)) \<and> carried_ok val hist (fst (?cs1 ! k)) (fst (snd (?cs1 ! k)))"
    using r j(1) len by (simp add: nth_list_update)
  have inv1: "flow_ready val hist (Suc j) ?cs1 ?hs1"
    unfolding flow_ready_def using m1 v1 r1 by blast
  have rest: "\<forall>k<length zs. Suc j + k < length ?hs1 \<and> snd (snd (zs ! k)) = ?hs1 ! (Suc j + k)"
  proof (intro allI impI)
    fix k assume k: "k < length zs"
    from Cons.prems(2) [rule_format, of "Suc k"] k
    show "Suc j + k < length ?hs1 \<and> snd (snd (zs ! k)) = ?hs1 ! (Suc j + k)"
      by simp
  qed
  from Cons.IH [OF inv1 rest]
  show ?case
    using step by (simp add: z split_beta Let_def)
qed

lemma detach_ready:
  assumes "\<forall>t. val (dt t) = val t" and "\<forall>t. \<not> hist (dt t)"
    and "flow_kept val cs hs"
  shows "flow_ready val hist 0 (map (\<lambda>(p, c, d). (p, detach dt c, True)) cs)
           (map (detach dt) hs)"
proof -
  have m: "map (\<lambda>e. fst (snd e)) cs = hs"
    and v: "\<forall>k<length cs. map val (leaves (fst (snd (cs ! k)))) = map val (leaves (fst (cs ! k)))"
    using assms(3) unfolding flow_kept_def by blast+
  have "map (\<lambda>e. fst (snd e)) (map (\<lambda>(p, c, d). (p, detach dt c, True)) cs)
      = map (detach dt) (map (\<lambda>e. fst (snd e)) cs)"
    by (simp add: split_beta comp_def)
  then have m': "map (\<lambda>e. fst (snd e)) (map (\<lambda>(p, c, d). (p, detach dt c, True)) cs)
      = map (detach dt) hs"
    using m by simp
  have c: "\<forall>k<length cs. carried_ok val hist (fst (cs ! k)) (detach dt (fst (snd (cs ! k))))"
    using v carried_detach_more [OF assms(1,2)] by blast
  then have v': "\<forall>k<length cs.
      map val (leaves (detach dt (fst (snd (cs ! k))))) = map val (leaves (fst (cs ! k)))"
    by (simp add: carried_ok_def)
  show ?thesis
    unfolding flow_ready_def using m' c v' by (simp add: split_beta)
qed

lemma triples_nth:
  "\<forall>k<length (batch_triples fw ctxs data target hiddens).
     0 + k < length (map (detach (fw_detach fw)) hiddens)
     \<and> snd (snd (batch_triples fw ctxs data target hiddens ! k))
         = map (detach (fw_detach fw)) hiddens ! (0 + k)"
  by (simp add: batch_triples_def)

lemma batch_flow:
  assumes "\<forall>t. val (fw_detach fw t) = val t" and "\<forall>t. \<not> hist (fw_detach fw t)"
    and "flow_kept val cs hiddens"
  shows "\<exists>cs'. run_monitor (flow_step (fw_detach fw) val hist) cs
                 (fst (train_batch fw c ctxs tr i data target hiddens total_L)) = Some cs'
           \<and> flow_kept val cs' (fst (snd (train_batch fw c ctxs tr i data target hiddens total_L)))"
proof -
  let ?cs0 = "map (\<lambda>(p, c, d). (p, detach (fw_detach fw) c, True)) cs"
  obtain cs' where
    run: "run_monitor (flow_step (fw_detach fw) val hist) ?cs0
            (fst (batch_devices fw ctxs tr data target hiddens)) = Some cs'"
    and kept: "flow_kept val cs' (fst (snd (batch_devices fw ctxs tr data target hiddens)))"
    using devices_flow [OF detach_ready [OF assms] triples_nth]
    unfolding batch_devices_def by blast
  show ?thesis
    by (cases rule: train_batch_cases [of fw ctxs data target hiddens c tr i total_L])
      (simp_all add: run_monitor_append run kept)
qed

lemma batches_flow:
  assumes "\<forall>t. val (fw_detach fw t) = val t" and "\<forall>t. \<not> hist (fw_detach fw t)"
    and "flow_kept val cs hiddens"
  shows "run_monitor (flow_step (fw_detach fw) val hist) cs
           (fst (train_batches fw c ctxs tr i bs hiddens total_L)) \<noteq> None"
  using assms(3)
proof (induction bs arbitrary: tr i hiddens total_L cs)
  case Nil
  then show ?case by simp
next
  case (Cons b bs)
  obtain data target where b: "b = (data, target)" by (cases b)
  obtain cs' where
    run: "run_monitor (flow_step (fw_detach fw) val hist) cs
            (fst (train_batch fw c ctxs tr i data target hiddens total_L)) = Some cs'"
    and kept: "flow_kept val cs'
            (fst (snd (train_batch fw c ctxs tr i data target hiddens total_L)))"
    using batch_flow [OF assms(1,2) Cons.prems] by blast
  show ?case
    unfolding b train_batches_Cons Let_def
    using Cons.IH [OF kept]
    by (simp add: run_monitor_append run split: option.splits)
qed

lemma begin_kept: "flow_kept val (map (\<lambda>h. (h, h, False)) hs) hs"
  by (simp add: flow_kept_def comp_def)

lemma epoch_flow:
  assumes "\<forall>t. val (fw_detach fw t) = val t" and "\<forall>t. \<not> hist (fw_detach fw t)"
  shows "run_monitor (flow_step (fw_detach fw) val hist) cs
           (events (train_epoch fw c batch_size ctxs train_data val_data test_data tr epoch
                      best lr)) \<noteq> None"
proof -
  have b: "run_monitor (flow_step (fw_detach fw) val hist)
      (map (\<lambda>h. (h, h, False)) (epoch_hiddens fw batch_size ctxs))
      (fst (epoch_batches fw c batch_size ctxs train_data tr)) \<noteq> None"
    unfolding epoch_batches_def by (rule batches_flow [OF assms begin_kept])
  show ?thesis
    by (cases rule: train_epoch_cases [of fw c batch_size ctxs train_data tr val_data test_data
          epoch best lr])
      (use b in \<open>auto simp: run_monitor_append\<close>)
qed

lemma epochs_flow:
  assumes "\<forall>t. val (fw_detach fw t) = val t" and "\<forall>t. \<not> hist (fw_detach fw t)"
  shows "run_monitor (flow_step (fw_detach fw) val hist) cs
           (events (train_epochs fw c batch_size ctxs train_data val_data test_data tr es
                      best lr)) \<noteq> None"
proof (induction es arbitrary: tr best lr cs)
  case Nil
  then show ?case by simp
next
  case (Cons epoch es)
  let ?r = "train_epoch fw c batch_size ctxs train_data val_data test_data tr epoch best lr"
  obtain cs' where run: "run_monitor (flow_step (fw_detach fw) val hist) cs (events ?r) = Some cs'"
    using epoch_flow [OF assms, of cs c batch_size ctxs train_data val_data test_data tr epoch
        best lr] by blast
  show ?case
    using Cons [of cs' "tr @ events ?r" "best_val ?r" "learning_rate ?r"]
    by (cases "raised ?r") (simp_all add: Let_def run_monitor_append run)
qed

text \<open>
  Claim C3. In \<open>evaluate\<close>, in \<open>evaluate_cache\<close> and in \<open>train\<close>, the hidden state given
  to the forward pass of a batch is the detached hidden state that the batch before
  produced. Provided that detaching a tensor keeps its value and leaves it without
  gradient history, the state given has the values of the state produced and no gradient
  history in any leaf.
\<close>

theorem hidden_state_detached_between_batches:
  assumes "\<forall>t. val (dt t) = val t" and "\<forall>t. \<not> hist (dt t)"
  shows "(let st = evaluate_run begin_state forward loss dt data_source batch_size ctx
          in chained dt val hist (ev_calls st) \<and> detached_state dt (ev_calls st) (ev_hidden st))
     \<and> (case evaluate_cache_run begin_state cache_model nll dt bptt width tokens batch_size ctx of
          Inl e \<Rightarrow> True
        | Inr (r, st) \<Rightarrow>
            chained dt val hist (ec_calls st)
            \<and> (r = None \<longrightarrow> detached_state dt (ec_calls st) (ec_hidden st)))
     \<and> run_monitor (flow_step dt val hist) []
          (events (train (fw\<lparr>fw_detach := dt\<rparr>) grad_clip batch_size' ctxs tr train_data val_data
                     test_data epochs lr))
          \<noteq> None"
proof -
  have 1: "(let st = evaluate_run begin_state forward loss dt data_source batch_size ctx
          in chained dt val hist (ev_calls st) \<and> detached_state dt (ev_calls st) (ev_hidden st))"
    unfolding evaluate_run_def Let_def
    by (rule evaluate_loop_chained [OF assms(1,2)]) (simp_all add: detached_state_def)
  have 2: "(case evaluate_cache_run begin_state cache_model nll dt bptt width tokens batch_size
                 ctx of
          Inl e \<Rightarrow> True
        | Inr (r, st) \<Rightarrow>
            chained dt val hist (ec_calls st)
            \<and> (r = None \<longrightarrow> detached_state dt (ec_calls st) (ec_hidden st)))"
  proof (cases "py_range 0 (int (length tokens) - 1) bptt")
    case (Inl e)
    then show ?thesis by (simp add: evaluate_cache_run_def)
  next
    case (Inr indices)
    let ?run = "evaluate_cache_loop cache_model nll dt bptt width tokens indices
        \<lparr>ec_total_L = PyFloat (Num 0), ec_hidden = begin_state batch_size ctx,
         ec_next_word_history = None, ec_cache_history = None, ec_calls = []\<rparr>"
    have "chained dt val hist (ec_calls (snd ?run))
        \<and> (fst ?run = None \<longrightarrow> detached_state dt (ec_calls (snd ?run)) (ec_hidden (snd ?run)))"
      by (rule evaluate_cache_loop_chained [OF assms(1,2)]) (simp_all add: detached_state_def)
    then
    show ?thesis
      using Inr by (simp add: evaluate_cache_run_def split_beta)
  qed
  have 3: "run_monitor (flow_step dt val hist) []
          (events (train (fw\<lparr>fw_detach := dt\<rparr>) grad_clip batch_size' ctxs tr train_data val_data
                     test_data epochs lr))
          \<noteq> None"
    using epochs_flow [of val "fw\<lparr>fw_detach := dt\<rparr>" hist "[]"] assms by (simp add: train_def)
  from 1 2 3 show ?thesis by blast
qed

lemma toy_evaluate_calls:
  "ev_calls (evaluate_run toy_begin_state toy_model toy_loss drop_history [(1, 2), (3, 4)] 20 ())
     = [(PyList [Tensor (0, 0), Tensor (0, 0)], PyTuple [Tensor (1, 1), Tensor (0, 1)]),
        (PyList [Tensor (1, 0), Tensor (0, 0)], PyTuple [Tensor (4, 1), Tensor (1, 1)])]"
  by code_simp

lemma drop_history_pair: "drop_history (a, b) = (a, 0)"
  by (simp add: drop_history_def)

lemma toy_detach: "toy_framework\<lparr>fw_detach := drop_history\<rparr> = toy_framework"
  by (simp add: toy_framework_def)

theorem hidden_state_detached_between_batches_witness:
  "(\<forall>t. fst (drop_history t) = fst t) \<and> (\<forall>t. \<not> toy_has_history (drop_history t))
   \<and> chained drop_history fst toy_has_history
     [(PyList [Tensor (0, 0), Tensor (0, 0)], PyTuple [Tensor (1, 1), Tensor (0, 1)]),
      (PyList [Tensor (1, 0), Tensor (0, 0)], PyTuple [Tensor (4, 1), Tensor (1, 1)])]
   \<and> run_monitor (flow_step drop_history fst toy_has_history) []
        (events (train toy_framework (1 / 4) 20 [()] [] [(1, 2)] [(1, 2)] [(5, 6)] 2 20))
      \<noteq> None
   \<and> run_monitor (flow_step drop_history fst toy_has_history) []
        [BeginState [Tensor (0, 0)], RecordEnter,
         Forward 0 (1::int) (Tensor (0, 0)) (Tensor (1, 1))] = None
   \<and> \<not> chained drop_history fst toy_has_history
        [(Tensor (0, 0), Tensor (1, 1)), (Tensor (1, 1), Tensor (2, 2))]"
proof -
  have val: "\<forall>t. fst (drop_history t) = fst t"
    and hist: "\<forall>t. \<not> toy_has_history (drop_history t)"
    by (simp_all add: drop_history_def toy_has_history_def)
  have neg: "run_monitor (flow_step drop_history fst toy_has_history) []
        [BeginState [Tensor (0, 0)], RecordEnter,
         Forward 0 (1::int) (Tensor (0, 0)) (Tensor (1, 1))] = None"
    "\<not> chained drop_history fst toy_has_history
        [(Tensor (0, 0), Tensor (1, 1)), (Tensor (1, 1), Tensor (2, 2))]"
    by (simp_all add: drop_history_def)
  show ?thesis
    using hidden_state_detached_between_batches [OF val hist,
        where begin_state = toy_begin_state and forward = toy_model and loss = toy_loss
        and data_source = "[(1, 2), (3, 4)]" and batch_size = 20 and ctx = "()"
        and cache_model = toy_cache_model and nll = toy_nll and bptt = 2 and width = 1
        and tokens = "[5, 6, 7, 8]" and fw = toy_framework and grad_clip = "1 / 4"
        and batch_size' = 20 and ctxs = "[()]" and tr = "[]" and train_data = "[(1, 2)]"
        and val_data = "[(1, 2)]" and test_data = "[(5, 6)]" and epochs = 2 and lr = 20]
      neg val hist
    by (simp add: toy_evaluate_calls toy_detach Let_def drop_history_pair)
qed

subsection \<open>Exceptions\<close>

lemma evaluate_Nil:
  "evaluate begin_state forward loss dt [] batch_size ctx = Inl ZeroDivisionError"
  by (simp add: evaluate_def evaluate_run_def)

lemma batches_error:
  "snd (train_batches fw c ctxs tr i bs hiddens total_L) = None
   \<or> snd (train_batches fw c ctxs tr i bs hiddens total_L) = Some AttributeError"
proof (induction bs arbitrary: tr i hiddens total_L)
  case Nil
  then show ?case by simp
next
  case (Cons b bs)
  obtain data target where b: "b = (data, target)" by (cases b)
  show ?case
    unfolding b train_batches_Cons Let_def
    by (cases rule: train_batch_cases [of fw ctxs data target hiddens c tr i total_L])
      (use Cons in \<open>simp_all\<close>)
qed

lemma epoch_empty_val:
  assumes "ctxs \<noteq> []"
  shows "raised (train_epoch fw c batch_size ctxs train_data [] test_data tr epoch best lr)
           = Some ZeroDivisionError
       \<or> raised (train_epoch fw c batch_size ctxs train_data [] test_data tr epoch best lr)
           = Some AttributeError"
proof -
  obtain ctx0 rest where ctxs: "ctxs = ctx0 # rest"
    using assms by (cases ctxs) auto
  show ?thesis
    using batches_error [of fw c ctxs "tr @ [BeginState (epoch_hiddens fw batch_size ctxs)]" 0
        train_data "epoch_hiddens fw batch_size ctxs" "PyFloat (Num 0)"]
    by (auto simp: train_epoch_def epoch_hiddens_def Let_def split_beta evaluate_Nil ctxs)
qed

lemma train_empty_val:
  assumes "ctxs \<noteq> []" and "0 < epochs"
  shows "raised (train fw c batch_size ctxs tr train_data [] test_data epochs lr)
           = Some ZeroDivisionError
       \<or> raised (train fw c batch_size ctxs tr train_data [] test_data epochs lr)
           = Some AttributeError"
proof -
  have "[0..<nat epochs] = 0 # [1..<nat epochs]"
    using assms(2) by (simp add: upt_conv_Cons)
  then show ?thesis
    using epoch_empty_val [OF assms(1), of fw c batch_size train_data test_data tr 0
        "PyFloat PosInf" lr]
    by (auto simp: train_def Let_def)
qed

text \<open>
  Claim C5. The functions of the notebook handle no failure of their own: \<open>evaluate\<close> on
  an empty data source reaches \<^verbatim>\<open>total_L / ntotal\<close> with \<^verbatim>\<open>ntotal = 0\<close> and raises
  \<^verbatim>\<open>ZeroDivisionError\<close>; \<open>evaluate_cache\<close> on an empty data source divides by
  \<^verbatim>\<open>len(data_source) = 0\<close> and raises it too (for the positive \<^verbatim>\<open>bptt\<close> of the notebook);
  and \<open>train\<close> with empty validation data ends its first epoch with an exception, that of
  \<open>evaluate\<close> unless a batch has raised one before.
\<close>

theorem empty_source_division_by_zero:
  "evaluate begin_state forward loss dt [] batch_size ctx = Inl ZeroDivisionError
   \<and> (0 < bptt \<longrightarrow>
        evaluate_cache begin_state' cache_model nll dt' bptt width [] batch_size' ctx'
          = Inl ZeroDivisionError)
   \<and> (ctxs \<noteq> [] \<and> 0 < epochs \<longrightarrow>
        raised (train fw grad_clip n ctxs tr train_data [] test_data epochs lr)
          = Some ZeroDivisionError
        \<or> raised (train fw grad_clip n ctxs tr train_data [] test_data epochs lr)
          = Some AttributeError)"
  using train_empty_val [of ctxs epochs fw grad_clip n tr train_data test_data lr]
  by (simp add: evaluate_Nil evaluate_cache_def evaluate_cache_run_def py_range_def
      range_length_def)

lemma toy_training_without_validation:
  "raised (train toy_framework (1 / 4) 20 [()] [] [(1, 2)] [] [(5, 6)] 2 20)
     = Some ZeroDivisionError"
  by code_simp

theorem empty_source_division_by_zero_witness:
  "(0::int) < 2000 \<and> [()] \<noteq> [] \<and> (0::int) < 2
   \<and> evaluate toy_begin_state toy_model toy_loss drop_history [] 20 () = Inl ZeroDivisionError
   \<and> evaluate_cache toy_begin_state toy_cache_model toy_nll drop_history 2000 1 [] 1 ()
       = Inl ZeroDivisionError
   \<and> raised (train toy_framework (1 / 4) 20 [()] [] [(1, 2)] [] [(5, 6)] 2 20)
       = Some ZeroDivisionError"
  using empty_source_division_by_zero [where begin_state = toy_begin_state
      and forward = toy_model and loss = toy_loss and dt = drop_history and batch_size = 20
      and ctx = "()" and bptt = 2000 and begin_state' = toy_begin_state
      and cache_model = toy_cache_model and nll = toy_nll and dt' = drop_history and width = 1
      and batch_size' = 1 and ctx' = "()" and ctxs = "[()]" and epochs = 2
      and fw = toy_framework and grad_clip = "1 / 4" and n = 20 and tr = "[]"
      and train_data = "[(1, 2)]" and test_data = "[(5, 6)]" and lr = 20]
  by (simp add: toy_training_without_validation)

end
